(* ===== verification/Prelude.thy ===== *)
theory Prelude
  imports Main "HOL-Library.Sublist"
begin

text \<open>
  Shared vocabulary of the message-board development: the names of the model's
  basic types, Python's truthiness and \<open>str()\<close> on the values the handlers of
  \<open>src/api/index.py\<close> test, JSON fields as the handlers read them with
  \<open>data.get\<close>, decimal rendering of integers, UTF-8 byte strings for the
  source's non-ASCII literals, and the generic list lemmas the component
  theories share.
\<close>

named_theorems handler_defs "definitions of request handlers unfolded by component proofs"
named_theorems store_simps "frame and lookup facts of the record store"

type_synonym email = string
type_synonym ip_addr = string
type_synonym timestamp = int \<comment> \<open>seconds, the resolution of the quota window\<close>

section \<open>JSON fields and Python truthiness\<close>

text \<open>
  A field of the JSON body (\<open>request.json\<close>) is absent, an explicit \<open>null\<close>, or
  a value. \<open>data.get(k)\<close> gives \<open>None\<close> for the first two;
  \<open>data.get(k, d)\<close> gives the default only for an absent key.
\<close>

datatype 'a json = JAbsent | JNull | JVal 'a

fun json_get :: "'a json \<Rightarrow> 'a option" where
  "json_get (JVal v) = Some v"
| "json_get _ = None"

fun json_get_default :: "'a \<Rightarrow> 'a json \<Rightarrow> 'a option" where
  "json_get_default d JAbsent = Some d"
| "json_get_default d JNull = None"
| "json_get_default d (JVal v) = Some v"

text \<open>\<open>if not x\<close> on a string-or-None: \<open>None\<close> and \<open>''\<close> are falsy.\<close>

fun py_truthy_str :: "string option \<Rightarrow> bool" where
  "py_truthy_str None = False"
| "py_truthy_str (Some s) = (s \<noteq> [])"

text \<open>\<open>if not x\<close> on an integer-or-None: \<open>None\<close> and \<open>0\<close> are falsy.\<close>

fun py_truthy_nat :: "nat option \<Rightarrow> bool" where
  "py_truthy_nat None = False"
| "py_truthy_nat (Some n) = (n \<noteq> 0)"

section \<open>Decimal rendering: Python's \<open>str\<close> on a non-negative int\<close>

fun dec_digits :: "nat \<Rightarrow> nat list" where
  "dec_digits n = (if n < 10 then [n] else dec_digits (n div 10) @ [n mod 10])"

declare dec_digits.simps [simp del]

definition digit_char :: "nat \<Rightarrow> char" where
  "digit_char d = char_of (48 + d)"

definition dec_str :: "nat \<Rightarrow> string" where
  "dec_str n = map digit_char (dec_digits n)"

text \<open>\<open>str(x)\<close> for an integer-or-None, as \<open>delete_message\<close> compares owners.\<close>

fun py_str_nat :: "nat option \<Rightarrow> string" where
  "py_str_nat None = ''None''"
| "py_str_nat (Some n) = dec_str n"

text \<open>
  A filter value as the query builder renders it (\<open>f"eq.{value}"\<close>): a missing
  field is rendered \<open>None\<close>.
\<close>

fun py_str :: "string option \<Rightarrow> string" where
  "py_str None = ''None''"
| "py_str (Some s) = s"

text \<open>Parsing a decimal string back, the inverse used by the round-trip lemmas.\<close>

fun parse_dec_acc :: "nat \<Rightarrow> string \<Rightarrow> nat" where
  "parse_dec_acc acc [] = acc"
| "parse_dec_acc acc (c # cs) = parse_dec_acc (10 * acc + (of_char c - 48)) cs"

definition parse_dec :: "string \<Rightarrow> nat" where
  "parse_dec s = parse_dec_acc 0 s"

section \<open>Byte strings\<close>

text \<open>
  Isabelle's \<open>char\<close> is a byte; the source's Chinese literals are their UTF-8
  encodings, written as byte lists.
\<close>

definition utf8 :: "nat list \<Rightarrow> string" where
  "utf8 bs = map char_of bs"

section \<open>Shared lemmas\<close>

lemma dec_digits_nonempty [simp]: "dec_digits n \<noteq> []"
  by (subst dec_digits.simps) simp

lemma dec_digits_small: "d \<in> set (dec_digits n) \<Longrightarrow> d < 10"
proof (induction n rule: dec_digits.induct)
  case (1 n)
  then show ?case
    by (cases "n < 10") (auto simp: dec_digits.simps [of n])
qed

lemma dec_digits_length_mono: "m \<le> n \<Longrightarrow> length (dec_digits m) \<le> length (dec_digits n)"
proof (induction n arbitrary: m rule: dec_digits.induct)
  case (1 n)
  show ?case
  proof (cases "n < 10")
    case True
    with "1.prems" show ?thesis
      by (simp add: dec_digits.simps [of n] dec_digits.simps [of m])
  next
    case False
    show ?thesis
    proof (cases "m < 10")
      case True
      have "dec_digits n \<noteq> []" by simp
      with True show ?thesis by (simp add: dec_digits.simps [of m] Suc_le_eq)
    next
      case m: False
      from "1.prems" have "m div 10 \<le> n div 10" by (simp add: div_le_mono)
      with False "1.IH" have "length (dec_digits (m div 10)) \<le> length (dec_digits (n div 10))"
        by simp
      with False m show ?thesis
        by (simp add: dec_digits.simps [of n] dec_digits.simps [of m])
    qed
  qed
qed

lemma parse_dec_acc_append:
  "parse_dec_acc acc (xs @ ys) = parse_dec_acc (parse_dec_acc acc xs) ys"
  by (induction xs arbitrary: acc) simp_all

lemma of_char_digit_char: "d < 10 \<Longrightarrow> of_char (digit_char d) = 48 + d"
  by (simp add: digit_char_def)

lemma parse_dec_acc_digits:
  "parse_dec_acc acc (map digit_char (dec_digits n)) = acc * 10 ^ length (dec_digits n) + n"
proof (induction n arbitrary: acc rule: dec_digits.induct)
  case (1 n)
  show ?case
  proof (cases "n < 10")
    case True
    then show ?thesis
      by (simp add: dec_digits.simps [of n] of_char_digit_char)
  next
    case False
    have "n mod 10 < 10" by simp
    then have "parse_dec_acc acc (map digit_char (dec_digits n)) =
        10 * (acc * 10 ^ length (dec_digits (n div 10)) + n div 10) + n mod 10"
      using False "1.IH"
      by (simp add: dec_digits.simps [of n] parse_dec_acc_append of_char_digit_char)
    also have "\<dots> = acc * 10 ^ length (dec_digits n) + n"
      using False by (simp add: dec_digits.simps [of n] algebra_simps)
    finally show ?thesis .
  qed
qed

lemma parse_dec_dec_str [simp]: "parse_dec (dec_str n) = n"
  by (simp add: parse_dec_def dec_str_def parse_dec_acc_digits)

lemma dec_str_inj: "dec_str m = dec_str n \<longleftrightarrow> m = n"
  by (metis parse_dec_dec_str)

lemma dec_str_not_None [simp]: "dec_str n \<noteq> ''None''"
proof
  assume "dec_str n = ''None''"
  then have "CHR ''N'' \<in> set (dec_str n)" by simp
  then obtain d where d: "d \<in> set (dec_digits n)" and eq: "CHR ''N'' = digit_char d"
    by (auto simp: dec_str_def)
  from d have "d < 10" by (rule dec_digits_small)
  from eq have "(of_char (CHR ''N'') :: nat) = of_char (digit_char d)" by simp
  with \<open>d < 10\<close> show False by (simp add: of_char_digit_char)
qed

lemma py_str_nat_eq_iff: "py_str_nat a = py_str_nat b \<longleftrightarrow> a = b"
  by (cases a; cases b) (auto simp: dec_str_inj dest: sym)

lemmas py_simps [simp] = py_str_nat_eq_iff

text \<open>Evaluating \<open>dec_str\<close> on a numeral, for the example instances.\<close>

lemmas dec_str_eval = dec_str_def dec_digits.simps digit_char_def char_of_eq_iff

lemma length_filter_Some_distinct:
  "distinct (filter (\<lambda>e. e \<noteq> None) (map f xs)) \<Longrightarrow> length (filter (\<lambda>u. f u = Some x) xs) \<le> 1"
  by (induction xs) (auto simp: filter_empty_conv split: if_splits intro: rev_image_eqI)

lemma find_distinct_key:
  "distinct (map g xs) \<Longrightarrow> u \<in> set xs \<Longrightarrow> find (\<lambda>v. g v = g u) xs = Some u"
  by (induction xs) (auto simp: image_iff)

lemma sort_key_snoc_least:
  "\<forall>y \<in> set xs. f x < f y \<Longrightarrow> sort_key f (xs @ [x]) = x # sort_key f xs"
  by (induction xs) auto

end
