(* ===== verification/Store.thy ===== *)
theory Store
  imports Prelude
begin

text \<open>
  The record store (the Supabase tables the handlers of \<open>src/api/index.py\<close>
  query): rows of \<open>app_users\<close> and \<open>messages\<close> as records, the
  \<open>email_codes\<close> table as a map from email to code, and the store state with
  the two identity counters the database uses to number new rows. The adapter
  operations are the query shapes the handlers build
  (\<open>select().eq(...)\<close>, \<open>insert\<close>, \<open>update().eq(...)\<close>, \<open>upsert\<close>,
  \<open>delete().eq(...)\<close>); each is a function of the store state.
\<close>

section \<open>Rows\<close>

text \<open>The \<open>role\<close> column holds \<open>'user'\<close>, \<open>'admin'\<close> or \<open>'super_admin'\<close>.\<close>

datatype role = RoleUser | RoleAdmin | RoleSuperAdmin

text \<open>
  A salted hash as \<open>werkzeug.security.generate_password_hash\<close> stores it: the
  salt and the password it was made from. Checking compares the candidate with
  the password the hash was made from (the contract of
  \<open>check_password_hash\<close>, collisions of the hash function aside).
\<close>

datatype pw_hash = PwHash nat string

fun check_password_hash :: "pw_hash \<Rightarrow> string \<Rightarrow> bool" where
  "check_password_hash (PwHash salt pw) candidate = (pw = candidate)"

definition generate_password_hash :: "nat \<Rightarrow> string \<Rightarrow> pw_hash" where
  "generate_password_hash salt pw = PwHash salt pw"

record app_user =
  u_id :: nat
  u_email :: "string option"
  u_pw :: pw_hash
  u_qq :: "string option"
  u_nickname :: "string option"
  u_avatar :: "string option"
  u_role :: role
  u_banned :: bool

record message =
  m_id :: nat
  m_content :: string
  m_user_id :: "nat option"
  m_guest :: bool
  m_ip :: ip_addr
  m_location :: string
  m_device :: string
  m_parent :: "nat option"
  m_deleted :: bool
  m_created :: timestamp

text \<open>
  The columns a handler writes when it inserts a message; the store adds
  \<open>id\<close>, \<open>created_at\<close> (the current time) and \<open>is_deleted = false\<close>.
\<close>

record msg_payload =
  p_content :: string
  p_user_id :: "nat option"
  p_guest :: bool
  p_ip :: ip_addr
  p_location :: string
  p_device :: string
  p_parent :: "nat option"

text \<open>The columns \<open>api_register\<close> writes; the store adds \<open>id\<close> and \<open>is_banned = false\<close>.\<close>

record user_payload =
  nu_email :: "string option"
  nu_pw :: pw_hash
  nu_qq :: "string option"
  nu_nickname :: "string option"
  nu_avatar :: "string option"
  nu_role :: role

section \<open>Store state\<close>

record db =
  email_codes :: "email \<rightharpoonup> string"
  app_users :: "app_user list"
  messages :: "message list"
  next_uid :: nat
  next_mid :: nat

definition empty_db :: db where
  "empty_db = \<lparr>email_codes = Map.empty, app_users = [], messages = [],
     next_uid = 1, next_mid = 1\<rparr>"

section \<open>Adapter operations\<close>

text \<open>\<open>table('app_users').select(...).eq('email', v)\<close>: rows whose email equals the rendered filter value.\<close>

definition users_with_email :: "db \<Rightarrow> string option \<Rightarrow> app_user list" where
  "users_with_email d v = filter (\<lambda>u. u_email u = Some (py_str v)) (app_users d)"

definition user_by_id :: "db \<Rightarrow> nat \<Rightarrow> app_user option" where
  "user_by_id d i = find (\<lambda>u. u_id u = i) (app_users d)"

definition message_by_id :: "db \<Rightarrow> nat \<Rightarrow> message option" where
  "message_by_id d i = find (\<lambda>m. m_id m = i) (messages d)"

text \<open>\<open>table('email_codes').upsert({'email': e, 'code': c})\<close>: the row keyed by \<open>e\<close> is replaced.\<close>

definition upsert_code :: "email \<Rightarrow> string \<Rightarrow> db \<Rightarrow> db" where
  "upsert_code e c d = d\<lparr>email_codes := (email_codes d)(e \<mapsto> c)\<rparr>"

definition delete_code :: "email \<Rightarrow> db \<Rightarrow> db" where
  "delete_code e d = d\<lparr>email_codes := (email_codes d)(e := None)\<rparr>"

definition insert_user :: "user_payload \<Rightarrow> db \<Rightarrow> db" where
  "insert_user p d = d\<lparr>app_users := app_users d @
     [\<lparr>u_id = next_uid d, u_email = nu_email p, u_pw = nu_pw p, u_qq = nu_qq p,
       u_nickname = nu_nickname p, u_avatar = nu_avatar p, u_role = nu_role p,
       u_banned = False\<rparr>],
     next_uid := Suc (next_uid d)\<rparr>"

definition new_message :: "nat \<Rightarrow> timestamp \<Rightarrow> msg_payload \<Rightarrow> message" where
  "new_message i now p = \<lparr>m_id = i, m_content = p_content p, m_user_id = p_user_id p,
     m_guest = p_guest p, m_ip = p_ip p, m_location = p_location p, m_device = p_device p,
     m_parent = p_parent p, m_deleted = False, m_created = now\<rparr>"

definition insert_message :: "timestamp \<Rightarrow> msg_payload \<Rightarrow> db \<Rightarrow> db" where
  "insert_message now p d = d\<lparr>messages := messages d @ [new_message (next_mid d) now p],
     next_mid := Suc (next_mid d)\<rparr>"

text \<open>\<open>table(t).update(f).eq('id', i)\<close>: every row with that id is rewritten by \<open>f\<close>.\<close>

definition update_user :: "nat \<Rightarrow> (app_user \<Rightarrow> app_user) \<Rightarrow> db \<Rightarrow> db" where
  "update_user i f d = d\<lparr>app_users := map (\<lambda>u. if u_id u = i then f u else u) (app_users d)\<rparr>"

definition update_message :: "nat \<Rightarrow> (message \<Rightarrow> message) \<Rightarrow> db \<Rightarrow> db" where
  "update_message i f d = d\<lparr>messages := map (\<lambda>m. if m_id m = i then f m else m) (messages d)\<rparr>"

text \<open>\<open>select('id', count='exact')\<close> on the whole user table.\<close>

definition user_count :: "db \<Rightarrow> nat" where
  "user_count d = length (app_users d)"

section \<open>Example rows\<close>

text \<open>Rows used by the example instances of the theorems.\<close>

abbreviation demo_user :: "nat \<Rightarrow> string \<Rightarrow> role \<Rightarrow> app_user" where
  "demo_user i e r \<equiv> \<lparr>u_id = i, u_email = Some e, u_pw = PwHash 0 ''secret'', u_qq = None,
     u_nickname = None, u_avatar = None, u_role = r, u_banned = False\<rparr>"

abbreviation demo_msg :: "nat \<Rightarrow> nat option \<Rightarrow> ip_addr \<Rightarrow> timestamp \<Rightarrow> message" where
  "demo_msg i uid ip t \<equiv> \<lparr>m_id = i, m_content = ''hello'', m_user_id = uid,
     m_guest = (uid = None), m_ip = ip, m_location = [], m_device = [], m_parent = None,
     m_deleted = False, m_created = t\<rparr>"

section \<open>Store lemmas\<close>

lemma insert_user_fields [store_simps]:
  "email_codes (insert_user p d) = email_codes d"
  "messages (insert_user p d) = messages d"
  "next_mid (insert_user p d) = next_mid d"
  "next_uid (insert_user p d) = Suc (next_uid d)"
  by (simp_all add: insert_user_def)

lemma insert_message_fields [store_simps]:
  "email_codes (insert_message now p d) = email_codes d"
  "app_users (insert_message now p d) = app_users d"
  "next_uid (insert_message now p d) = next_uid d"
  "next_mid (insert_message now p d) = Suc (next_mid d)"
  by (simp_all add: insert_message_def)

lemma code_ops_fields [store_simps]:
  "app_users (upsert_code e c d) = app_users d"
  "messages (upsert_code e c d) = messages d"
  "next_uid (upsert_code e c d) = next_uid d"
  "next_mid (upsert_code e c d) = next_mid d"
  "app_users (delete_code e d) = app_users d"
  "messages (delete_code e d) = messages d"
  "next_uid (delete_code e d) = next_uid d"
  "next_mid (delete_code e d) = next_mid d"
  by (simp_all add: upsert_code_def delete_code_def)

lemma update_ops_fields [store_simps]:
  "email_codes (update_user i f d) = email_codes d"
  "messages (update_user i f d) = messages d"
  "next_uid (update_user i f d) = next_uid d"
  "next_mid (update_user i f d) = next_mid d"
  "email_codes (update_message i g d) = email_codes d"
  "app_users (update_message i g d) = app_users d"
  "next_uid (update_message i g d) = next_uid d"
  "next_mid (update_message i g d) = next_mid d"
  by (simp_all add: update_user_def update_message_def)

lemma upsert_code_lookup [store_simps]:
  "email_codes (upsert_code e c d) e' = (if e' = e then Some c else email_codes d e')"
  by (simp add: upsert_code_def)

lemma delete_code_lookup [store_simps]:
  "email_codes (delete_code e d) e' = (if e' = e then None else email_codes d e')"
  by (simp add: delete_code_def)

lemma message_by_id_Some:
  "message_by_id d i = Some m \<Longrightarrow> m \<in> set (messages d) \<and> m_id m = i"
  by (auto simp: message_by_id_def dest: find_Some_iff [THEN iffD1] simp: find_Some_iff)

lemma message_by_id_None:
  "message_by_id d i = None \<longleftrightarrow> (\<forall>m \<in> set (messages d). m_id m \<noteq> i)"
  by (auto simp: message_by_id_def find_None_iff)

lemma users_with_email_insert_message [store_simps]:
  "users_with_email (insert_message now p d) v = users_with_email d v"
  by (simp add: users_with_email_def insert_message_fields)

lemma users_with_email_update_user:
  "(\<And>u. u_email (f u) = u_email u) \<Longrightarrow>
     users_with_email (update_user i f d) v = map (\<lambda>u. if u_id u = i then f u else u) (users_with_email d v)"
  by (simp add: users_with_email_def update_user_def filter_map comp_def)

end
