(* ===== verification/Collaborators.thy ===== *)
theory Collaborators
  imports Prelude
begin

text \<open>
  The helper functions of \<open>src/api/index.py\<close> (lines 34-93) that stand between
  the handlers and the outside world: choosing an SMTP account and sending the
  code mail, the IP-to-location label, the device label, and the QQ avatar URL.
  What the outside world answers (the random choice, the SMTP server, the
  ip-api.com service, the user-agent parser) is an input of the model: the
  record \<open>req_env\<close> collects one request's answers, and every helper is a
  function of them.
\<close>

section \<open>The answers of the outside world to one request\<close>

datatype geo_answer =
    GeoSuccess string string string \<comment> \<open>\<open>status == 'success'\<close>: country, regionName, city\<close>
  | GeoFail                          \<comment> \<open>any other status\<close>
  | GeoError                         \<comment> \<open>the request or the JSON decoding raised\<close>

record req_env =
  e_now :: timestamp          \<comment> \<open>\<open>datetime.utcnow()\<close>, also the store's \<open>created_at\<close>\<close>
  e_xff :: "string list"      \<comment> \<open>\<open>request.headers.getlist("X-Forwarded-For")\<close>\<close>
  e_remote :: ip_addr         \<comment> \<open>\<open>request.remote_addr\<close>\<close>
  e_ua :: "string \<times> string"  \<comment> \<open>\<open>parse(ua).device.family\<close>, \<open>parse(ua).os.family\<close>\<close>
  e_geo :: geo_answer
  e_rand :: nat               \<comment> \<open>the draw behind \<open>random.randint\<close>\<close>
  e_pick :: nat               \<comment> \<open>the draw behind \<open>random.choice\<close>\<close>
  e_smtp_ok :: bool           \<comment> \<open>the SMTP exchange completes without an exception\<close>
  e_store_ok :: bool          \<comment> \<open>the guarded \<open>insert(...).execute()\<close> does not raise\<close>
  e_salt :: nat               \<comment> \<open>the salt \<open>generate_password_hash\<close> draws\<close>

section \<open>SMTP account selection and the code mail\<close>

record smtp_account =
  sa_email :: string
  sa_password :: string
  sa_smtp :: string

text \<open>
  \<open>SMTP_ACCOUNTS\<close> decoded by \<open>json.loads\<close>: \<open>None\<close> when decoding raises.
  \<open>get_random_smtp\<close> returns \<open>None\<close> for a failed decode or an empty list and
  otherwise one account chosen by the random draw.
\<close>

type_synonym smtp_config = "smtp_account list option"

fun get_random_smtp :: "smtp_config \<Rightarrow> nat \<Rightarrow> smtp_account option" where
  "get_random_smtp None pick = None"
| "get_random_smtp (Some []) pick = None"
| "get_random_smtp (Some accts) pick = Some (accts ! (pick mod length accts))"

record mail =
  mail_from :: string
  mail_to :: email
  mail_body :: string

text \<open>The body template of line 50, around the code.\<close>

definition mail_text :: "string \<Rightarrow> string" where
  "mail_text code =
     utf8 [227, 128, 144, 230, 152, 159, 233, 153, 133, 231, 149, 153, 232, 168, 128, 230,
           157, 191, 227, 128, 145, 230, 130, 168, 231, 154, 132, 233, 170, 140, 232, 175,
           129, 231, 160, 129, 230, 152, 175, 239, 188, 154]
     @ code @
     utf8 [239, 188, 140, 53, 229, 136, 134, 233, 146, 159, 229, 134, 133, 230, 156, 137,
           230, 149, 136, 227, 128, 130]"

text \<open>
  \<open>send_email_code\<close>: \<open>(False, _)\<close> with no account; otherwise the SMTP exchange,
  which either delivers the mail or raises and is reported as \<open>(False, _)\<close>.
  The delivered mail is returned beside the flag.
\<close>

definition send_email_code ::
  "smtp_config \<Rightarrow> req_env \<Rightarrow> email \<Rightarrow> string \<Rightarrow> bool \<times> mail option" where
  "send_email_code cfg env to code =
     (case get_random_smtp cfg (e_pick env) of
        None \<Rightarrow> (False, None)
      | Some acct \<Rightarrow>
          (if e_smtp_ok env
           then (True, Some \<lparr>mail_from = sa_email acct, mail_to = to, mail_body = mail_text code\<rparr>)
           else (False, None)))"

section \<open>Location label\<close>

definition loc_local :: string where
  "loc_local = utf8 [230, 156, 172, 229, 156, 176, 32, 232, 191, 158, 230, 142, 165]"

definition loc_unknown :: string where
  "loc_unknown = utf8 [230, 156, 170, 231, 159, 165, 32, 229, 157, 144, 230, 160, 135]"

definition loc_deep_space :: string where
  "loc_deep_space = utf8 [230, 183, 177, 231, 169, 186, 32, 228, 191, 161, 229, 143, 183]"

fun get_ip_info :: "ip_addr \<Rightarrow> geo_answer \<Rightarrow> string" where
  "get_ip_info ip geo =
     (if ip = ''127.0.0.1'' then loc_local
      else (case geo of
              GeoSuccess country region city \<Rightarrow> country @ '' '' @ region @ '' '' @ city
            | GeoFail \<Rightarrow> loc_unknown
            | GeoError \<Rightarrow> loc_deep_space))"

section \<open>Device label\<close>

definition device_suffix :: string where
  "device_suffix = utf8 [32, 232, 174, 190, 229, 164, 135]"

text \<open>\<open>"iPhone" in device\<close> is a substring test.\<close>

fun get_device_info :: "string \<times> string \<Rightarrow> string" where
  "get_device_info (device, os_name) =
     (if sublist ''iPhone'' device then device @ '' ('' @ os_name @ '')''
      else if device = ''Other'' then os_name @ device_suffix
      else device @ '' ('' @ os_name @ '')'')"

section \<open>QQ avatar\<close>

definition qq_avatar_prefix :: string where
  "qq_avatar_prefix = ''https://q1.qlogo.cn/g?b=qq&nk=''"

definition qq_avatar_suffix :: string where
  "qq_avatar_suffix = ''&s=640''"

fun get_qq_avatar :: "string option \<Rightarrow> string option" where
  "get_qq_avatar qq =
     (if \<not> py_truthy_str qq then None
      else Some (qq_avatar_prefix @ the qq @ qq_avatar_suffix))"

text \<open>Reading the QQ number back from an avatar URL.\<close>

definition qq_of_avatar :: "string \<Rightarrow> string" where
  "qq_of_avatar url =
     take (length url - length qq_avatar_prefix - length qq_avatar_suffix)
       (drop (length qq_avatar_prefix) url)"

section \<open>Example answers\<close>

abbreviation demo_env :: "timestamp \<Rightarrow> req_env" where
  "demo_env t \<equiv> \<lparr>e_now = t, e_xff = [], e_remote = ''10.0.0.7'', e_ua = (''iPhone'', ''iOS''),
     e_geo = GeoFail, e_rand = 123456, e_pick = 0, e_smtp_ok = True, e_store_ok = True,
     e_salt = 7\<rparr>"

section \<open>Properties of the helpers\<close>

text \<open>
  C34: the iPhone branch of the device label is redundant: the label is the
  OS name with the device suffix for device family \<open>Other\<close> and
  \<open>device (os)\<close> for every other family.
\<close>

theorem device_label_equiv:
  "get_device_info (device, os_name) =
     (if device = ''Other'' then os_name @ device_suffix else device @ '' ('' @ os_name @ '')'')"
  by (auto simp: sublist_code)

text \<open>
  C35: an avatar URL exists exactly for a non-empty QQ number, and the QQ
  number is read back from it unchanged.
\<close>

theorem avatar_roundtrip:
  "(get_qq_avatar qq = None \<longleftrightarrow> \<not> py_truthy_str qq) \<and>
   (py_truthy_str qq \<longrightarrow> map_option qq_of_avatar (get_qq_avatar qq) = qq)"
  by (cases qq) (auto simp: qq_of_avatar_def qq_avatar_prefix_def qq_avatar_suffix_def)

theorem avatar_roundtrip_witness:
  "get_qq_avatar (Some '''') = None \<and> map_option qq_of_avatar (get_qq_avatar (Some ''10001'')) = Some ''10001''"
  using avatar_roundtrip [of "Some ''''"] avatar_roundtrip [of "Some ''10001''"] by simp
end
