(* ===== verification/Api.thy ===== *)
theory Api
  imports Store Collaborators
begin

text \<open>
  The interface the route handlers of \<open>src/api/index.py\<close> share: the Flask
  session (\<open>session['user_id']\<close>, \<open>session['role']\<close>,
  \<open>session['nickname']\<close>), the author columns \<open>get_messages\<close> joins, and every
  response a handler returns, as one datatype with the HTTP status of each.
  An exception the handler does not catch becomes Flask's 500 response,
  \<open>ErrUnhandled\<close>.
\<close>

record session =
  s_user_id :: "nat option"
  s_role :: "role option"
  s_nickname :: "string option"

definition empty_session :: session where
  "empty_session = \<lparr>s_user_id = None, s_role = None, s_nickname = None\<rparr>"

text \<open>\<open>app_users(nickname, avatar_url, role, qq_number)\<close>, joined to a message.\<close>

record author_info =
  a_nickname :: "string option"
  a_avatar :: "string option"
  a_role :: role
  a_qq :: "string option"

datatype api_result =
    IndexPage
  | ErrEmailMissing | CodeSent | ErrSendFailed
  | ErrBadCode | ErrEmailTaken | Registered | ErrStoreFailed
  | ErrNoAccount | ErrBanned | LoginOk app_user | ErrBadPassword
  | LoggedOut
  | MessageList "(message \<times> author_info option) list"
  | ErrEmptyContent | ErrGuestQuota | Posted
  | ErrNotLoggedIn | ErrMsgNotFound | Deleted | ErrForbidden
  | QqBound | PwChanged | ErrUnknownAction
  | ErrUnhandled

fun http_status :: "api_result \<Rightarrow> nat" where
  "http_status ErrEmailMissing = 400"
| "http_status ErrSendFailed = 500"
| "http_status ErrBadCode = 400"
| "http_status ErrEmailTaken = 400"
| "http_status ErrStoreFailed = 500"
| "http_status ErrNoAccount = 404"
| "http_status ErrBanned = 403"
| "http_status ErrBadPassword = 401"
| "http_status ErrEmptyContent = 400"
| "http_status ErrGuestQuota = 429"
| "http_status ErrNotLoggedIn = 401"
| "http_status ErrMsgNotFound = 404"
| "http_status ErrForbidden = 403"
| "http_status ErrUnknownAction = 400"
| "http_status ErrUnhandled = 500"
| "http_status _ = 200"

abbreviation demo_member :: "nat \<Rightarrow> role \<Rightarrow> session" where
  "demo_member i r \<equiv> \<lparr>s_user_id = Some i, s_role = Some r, s_nickname = None\<rparr>"

end
