(* ===== verification/Verification.thy ===== *)
theory Verification
  imports Api
begin

text \<open>
  The verification service: \<open>api_send_code\<close> (\<open>src/api/index.py\<close> lines
  102-118). A six-digit code is drawn by \<open>random.randint(100000, 999999)\<close>,
  stored in \<open>email_codes\<close> over any earlier code of the same email, and mailed.
  The code stays stored when the mail cannot be sent. Validation is not a
  separate routine of the source: it is the first step of \<open>api_register\<close>
  (theory \<open>Account\<close>), which compares the stored code and never its age.
\<close>

section \<open>Code generation\<close>

text \<open>
  \<open>str(random.randint(100000, 999999))\<close>: the draw \<open>r\<close> selects one of the
  900000 values of the closed range.
\<close>

definition gen_code :: "nat \<Rightarrow> string" where
  "gen_code r = dec_str (100000 + r mod 900000)"

section \<open>The handler\<close>

definition api_send_code ::
  "smtp_config \<Rightarrow> req_env \<Rightarrow> string json \<Rightarrow> db \<Rightarrow> api_result \<times> db \<times> mail option" where
  "api_send_code cfg env email_field d =
     (let email = json_get email_field in
      if \<not> py_truthy_str email then (ErrEmailMissing, d, None)
      else
        (let code = gen_code (e_rand env);
             d' = upsert_code (the email) code d;
             (ok, sent) = send_email_code cfg env (the email) code
         in if ok then (CodeSent, d', sent) else (ErrSendFailed, d', None)))"

declare api_send_code_def [handler_defs]

section \<open>Lemmas on the generated code\<close>

lemma dec_digits_length_6:
  assumes "100000 \<le> n" and "n \<le> 999999"
  shows "length (dec_digits n) = 6"
proof -
  have lo: "length (dec_digits 100000) = 6"
    by (simp add: dec_digits.simps)
  have hi: "length (dec_digits 999999) = 6"
    by (simp add: dec_digits.simps)
  from assms(1) have "length (dec_digits 100000) \<le> length (dec_digits n)"
    by (rule dec_digits_length_mono)
  moreover from assms(2) have "length (dec_digits n) \<le> length (dec_digits 999999)"
    by (rule dec_digits_length_mono)
  ultimately show ?thesis using lo hi by simp
qed

lemma dec_digits_hd_nonzero: "0 < n \<Longrightarrow> hd (dec_digits n) \<noteq> 0"
proof (induction n rule: dec_digits.induct)
  case (1 n)
  show ?case
  proof (cases "n < 10")
    case True
    with "1.prems" show ?thesis by (simp add: dec_digits.simps [of n])
  next
    case False
    then have "0 < n div 10" by simp
    with False "1.IH" have "hd (dec_digits (n div 10)) \<noteq> 0" by simp
    with False show ?thesis by (simp add: dec_digits.simps [of n])
  qed
qed

lemma gen_code_value: "parse_dec (gen_code r) = 100000 + r mod 900000"
  by (simp add: gen_code_def)

lemma gen_code_range:
  "100000 \<le> 100000 + r mod 900000 \<and> 100000 + r mod (900000::nat) \<le> 999999"
  by simp

lemma gen_code_digits:
  "c \<in> set (gen_code r) \<Longrightarrow> 48 \<le> (of_char c :: nat) \<and> (of_char c :: nat) \<le> 57"
proof -
  assume "c \<in> set (gen_code r)"
  then obtain d where d: "d \<in> set (dec_digits (100000 + r mod 900000))" and c: "c = digit_char d"
    by (auto simp: gen_code_def dec_str_def)
  from d have "d < 10" by (rule dec_digits_small)
  then show ?thesis by (simp add: c of_char_digit_char)
qed

lemma send_email_code_cases:
  "send_email_code cfg env to code = (ok, sent) \<Longrightarrow>
     (ok \<longleftrightarrow> get_random_smtp cfg (e_pick env) \<noteq> None \<and> e_smtp_ok env) \<and>
     (ok \<longrightarrow> (\<exists>acct. get_random_smtp cfg (e_pick env) = Some acct \<and> sent = Some \<lparr>mail_from = sa_email acct, mail_to = to, mail_body = mail_text code\<rparr>))"
  by (auto simp: send_email_code_def split: option.splits if_splits)

lemma api_send_code_store:
  "py_truthy_str (json_get e) \<Longrightarrow> api_send_code cfg env e d = (r, d', sent) \<Longrightarrow>
     d' = upsert_code (the (json_get e)) (gen_code (e_rand env)) d"
  by (auto simp: api_send_code_def Let_def split: prod.splits if_splits)

lemma api_send_code_mail:
  "api_send_code cfg env e d = (r, d', Some m) \<Longrightarrow>
     r = CodeSent \<and> email_codes d' (mail_to m) = Some (gen_code (e_rand env)) \<and>
     mail_body m = mail_text (gen_code (e_rand env))"
  by (auto simp: api_send_code_def Let_def send_email_code_def upsert_code_def
      split: option.splits if_splits prod.splits)

section \<open>Properties of the verification service\<close>

text \<open>
  C16: a code request with an email stores the drawn code for that email over
  any earlier one, whether or not the mail goes out, and changes nothing else;
  it answers success exactly when an SMTP account is configured and the
  exchange succeeds, and then the mail to that email carries the stored code.
\<close>

theorem send_code_effect:
  assumes "py_truthy_str (json_get e)" and "api_send_code cfg env e d = (r, d', sent)"
  shows "email_codes d' = (email_codes d)(the (json_get e) \<mapsto> gen_code (e_rand env)) \<and>
    app_users d' = app_users d \<and> messages d' = messages d \<and>
    (r = CodeSent \<longleftrightarrow> get_random_smtp cfg (e_pick env) \<noteq> None \<and> e_smtp_ok env) \<and>
    (r \<noteq> CodeSent \<longrightarrow> r = ErrSendFailed \<and> sent = None) \<and>
    (r = CodeSent \<longrightarrow> (\<exists>m. sent = Some m \<and> mail_to m = the (json_get e) \<and>
                            mail_body m = mail_text (gen_code (e_rand env))))"
proof -
  obtain ok snt where snd_eq: "send_email_code cfg env (the (json_get e)) (gen_code (e_rand env)) = (ok, snt)"
    by (cases "send_email_code cfg env (the (json_get e)) (gen_code (e_rand env))")
  from assms snd_eq have res: "(r, d', sent) =
      (if ok then (CodeSent, upsert_code (the (json_get e)) (gen_code (e_rand env)) d, snt)
       else (ErrSendFailed, upsert_code (the (json_get e)) (gen_code (e_rand env)) d, None))"
    by (simp add: api_send_code_def Let_def)
  from send_email_code_cases [OF snd_eq] res show ?thesis
    by (auto simp: upsert_code_def split: if_splits)
qed

theorem send_code_effect_witness:
  "email_codes (fst (snd (api_send_code None (demo_env 0) (JVal ''a@x.io'') empty_db))) ''a@x.io''
     = Some ''223456'' \<and>
   fst (api_send_code None (demo_env 0) (JVal ''a@x.io'') empty_db) = ErrSendFailed"
proof -
  obtain r d' sent where h: "api_send_code None (demo_env 0) (JVal ''a@x.io'') empty_db = (r, d', sent)"
    by (cases "api_send_code None (demo_env 0) (JVal ''a@x.io'') empty_db")
  have g: "gen_code 123456 = ''223456''" by (simp add: gen_code_def dec_str_eval)
  from send_code_effect [of "JVal ''a@x.io''" None "demo_env 0" empty_db r d' sent] h g show ?thesis
    by simp
qed

text \<open>
  C21: a generated code is six decimal digits with a non-zero first digit:
  its value lies between 100000 and 999999.
\<close>

theorem code_six_digits:
  "length (gen_code r) = 6 \<and> of_char (hd (gen_code r)) \<noteq> (48::nat) \<and>
   (\<forall>c \<in> set (gen_code r). 48 \<le> (of_char c :: nat) \<and> (of_char c :: nat) \<le> 57) \<and>
   100000 \<le> parse_dec (gen_code r) \<and> parse_dec (gen_code r) \<le> 999999"
proof -
  let ?n = "100000 + r mod 900000"
  have len: "length (dec_digits ?n) = 6" by (rule dec_digits_length_6) simp_all
  have "hd (dec_digits ?n) \<noteq> 0" by (rule dec_digits_hd_nonzero) simp
  moreover have "hd (dec_digits ?n) < 10"
    using dec_digits_small [OF hd_in_set [OF dec_digits_nonempty]] .
  ultimately have "of_char (hd (gen_code r)) \<noteq> (48::nat)"
    by (simp add: gen_code_def dec_str_def hd_map of_char_digit_char)
  moreover from len have "length (gen_code r) = 6" by (simp add: gen_code_def dec_str_def)
  ultimately show ?thesis using gen_code_value [of r] gen_code_digits [of _ r] by auto
qed

theorem code_six_digits_witness:
  "length (gen_code 7) = 6 \<and> parse_dec (gen_code 7) = 100007"
  using code_six_digits [of 7] by (simp add: gen_code_value)

end
