(* ===== verification/Account.thy ===== *)
theory Account
  imports Api
begin

text \<open>
  The account service of \<open>src/api/index.py\<close>: \<open>api_register\<close> (lines 120-162),
  \<open>api_login\<close> (164-184), \<open>api_logout\<close> (186-189) and \<open>update_profile\<close>
  (270-291). Registration checks the stored code, then the email, then makes
  the first user of an empty table \<open>super_admin\<close>; login checks the ban before
  the password and copies id, role and nickname into the session; the profile
  handler rebinds the QQ number or the password of the session's user.
\<close>

section \<open>Request bodies\<close>

record reg_form =
  rf_email :: "string json"
  rf_code :: "string json"
  rf_password :: "string json"
  rf_qq :: "string json"
  rf_nickname :: "string json"

record profile_form =
  pf_action :: "string json"
  pf_qq :: "string json"
  pf_password :: "string json"

text \<open>The default nickname of line 127.\<close>

definition default_nickname :: string where
  "default_nickname = utf8 [230, 152, 159, 233, 153, 133, 230, 151, 133, 232, 161, 140, 232, 128, 133]"

section \<open>Registration\<close>

text \<open>
  Step 1 of \<open>api_register\<close>: \<open>not res.data or res.data[0]['code'] != code\<close>.
  The stored code is compared with the submitted one and nothing else: the
  row's age is not read.
\<close>

definition code_rejected :: "db \<Rightarrow> string option \<Rightarrow> string option \<Rightarrow> bool" where
  "code_rejected d email code =
     (case email_codes d (py_str email) of None \<Rightarrow> True | Some c \<Rightarrow> Some c \<noteq> code)"

definition new_role :: "db \<Rightarrow> role" where
  "new_role d = (if user_count d = 0 then RoleSuperAdmin else RoleUser)"

definition api_register :: "req_env \<Rightarrow> reg_form \<Rightarrow> db \<Rightarrow> api_result \<times> db" where
  "api_register env f d =
     (let email = json_get (rf_email f);
          code = json_get (rf_code f);
          password = json_get (rf_password f);
          qq = json_get (rf_qq f);
          nickname = json_get_default default_nickname (rf_nickname f)
      in if code_rejected d email code then (ErrBadCode, d)
      else if users_with_email d email \<noteq> [] then (ErrEmailTaken, d)
      else
        (let role = new_role d in
         case password of
           None \<Rightarrow> (ErrUnhandled, d)
         | Some pw \<Rightarrow>
             (let row = \<lparr>nu_email = email, nu_pw = generate_password_hash (e_salt env) pw,
                         nu_qq = qq, nu_nickname = nickname,
                         nu_avatar = (if py_truthy_str qq then get_qq_avatar qq else None),
                         nu_role = role\<rparr>
              in if e_store_ok env
                 then (Registered, delete_code (py_str email) (insert_user row d))
                 else (ErrStoreFailed, d))))"

section \<open>Login and logout\<close>

definition api_login ::
  "string json \<Rightarrow> string json \<Rightarrow> db \<Rightarrow> session \<Rightarrow> api_result \<times> session" where
  "api_login email_field password_field d sess =
     (let email = json_get email_field; password = json_get password_field in
      case users_with_email d email of
        [] \<Rightarrow> (ErrNoAccount, sess)
      | u # _ \<Rightarrow>
          (if u_banned u then (ErrBanned, sess)
           else (case password of
                   None \<Rightarrow> (ErrUnhandled, sess)
                 | Some pw \<Rightarrow>
                     (if check_password_hash (u_pw u) pw
                      then (LoginOk u, sess\<lparr>s_user_id := Some (u_id u), s_role := Some (u_role u),
                                             s_nickname := u_nickname u\<rparr>)
                      else (ErrBadPassword, sess)))))"

definition api_logout :: "session \<Rightarrow> api_result \<times> session" where
  "api_logout sess = (LoggedOut, empty_session)"

section \<open>Profile update\<close>

definition update_profile ::
  "req_env \<Rightarrow> session \<Rightarrow> profile_form \<Rightarrow> db \<Rightarrow> api_result \<times> db" where
  "update_profile env sess f d =
     (let user_id = s_user_id sess in
      if \<not> py_truthy_nat user_id then (ErrNotLoggedIn, d)
      else
        (let action = json_get (pf_action f) in
         if action = Some ''bind_qq'' then
           (let qq = json_get (pf_qq f); avatar = get_qq_avatar qq in
            (QqBound, update_user (the user_id) (\<lambda>u. u\<lparr>u_qq := qq, u_avatar := avatar\<rparr>) d))
         else if action = Some ''change_pwd'' then
           (case json_get (pf_password f) of
              None \<Rightarrow> (ErrUnhandled, d)
            | Some pw \<Rightarrow>
                (PwChanged,
                 update_user (the user_id) (\<lambda>u. u\<lparr>u_pw := generate_password_hash (e_salt env) pw\<rparr>) d))
         else (ErrUnknownAction, d)))"

declare api_register_def [handler_defs] api_login_def [handler_defs]
  api_logout_def [handler_defs] update_profile_def [handler_defs]

section \<open>Example request\<close>

abbreviation demo_reg :: "string \<Rightarrow> string \<Rightarrow> reg_form" where
  "demo_reg e c \<equiv> \<lparr>rf_email = JVal e, rf_code = JVal c, rf_password = JVal ''pw1'',
     rf_qq = JVal ''10001'', rf_nickname = JAbsent\<rparr>"

section \<open>Lemmas of the account service\<close>

lemma api_register_cases:
  "api_register env f d = (r, d') \<Longrightarrow>
     (r = Registered \<and>
      \<not> code_rejected d (json_get (rf_email f)) (json_get (rf_code f)) \<and>
      users_with_email d (json_get (rf_email f)) = [] \<and>
      (\<exists>pw. json_get (rf_password f) = Some pw \<and>
        d' = delete_code (py_str (json_get (rf_email f)))
               (insert_user \<lparr>nu_email = json_get (rf_email f),
                  nu_pw = generate_password_hash (e_salt env) pw,
                  nu_qq = json_get (rf_qq f),
                  nu_nickname = json_get_default default_nickname (rf_nickname f),
                  nu_avatar = (if py_truthy_str (json_get (rf_qq f)) then get_qq_avatar (json_get (rf_qq f)) else None),
                  nu_role = new_role d\<rparr> d)) \<and>
      e_store_ok env)
     \<or> (r \<noteq> Registered \<and> d' = d)"
  by (auto simp: api_register_def Let_def split: if_splits option.splits)

lemma api_register_unchanged:
  "api_register env f d = (r, d') \<Longrightarrow> r \<noteq> Registered \<Longrightarrow> d' = d"
  using api_register_cases by blast

lemma users_with_email_Nil:
  "users_with_email d v = [] \<longleftrightarrow> (\<forall>u \<in> set (app_users d). u_email u \<noteq> Some (py_str v))"
  by (auto simp: users_with_email_def filter_empty_conv)

lemma api_login_session_unchanged:
  "api_login e p d sess = (r, sess') \<Longrightarrow> (\<forall>u. r \<noteq> LoginOk u) \<Longrightarrow> sess' = sess"
  by (auto simp: api_login_def Let_def split: list.splits if_splits option.splits)

lemma api_login_LoginOk:
  "api_login e p d sess = (LoginOk u, sess') \<Longrightarrow>
     users_with_email d (json_get e) \<noteq> [] \<and> u = hd (users_with_email d (json_get e)) \<and>
     \<not> u_banned u \<and> (\<exists>pw. json_get p = Some pw \<and> check_password_hash (u_pw u) pw) \<and>
     sess' = sess\<lparr>s_user_id := Some (u_id u), s_role := Some (u_role u), s_nickname := u_nickname u\<rparr>"
  by (auto simp: api_login_def Let_def split: list.splits if_splits option.splits)

lemma update_profile_cases:
  "update_profile env sess f d = (r, d') \<Longrightarrow>
     d' = d \<or>
     (py_truthy_nat (s_user_id sess) \<and>
      ((r = QqBound \<and> json_get (pf_action f) = Some ''bind_qq'' \<and>
        d' = update_user (the (s_user_id sess))
               (\<lambda>u. u\<lparr>u_qq := json_get (pf_qq f), u_avatar := get_qq_avatar (json_get (pf_qq f))\<rparr>) d) \<or>
       (r = PwChanged \<and> json_get (pf_action f) = Some ''change_pwd'' \<and>
        (\<exists>pw. json_get (pf_password f) = Some pw \<and>
          d' = update_user (the (s_user_id sess))
                 (\<lambda>u. u\<lparr>u_pw := generate_password_hash (e_salt env) pw\<rparr>) d))))"
  by (auto simp: update_profile_def Let_def split: if_splits option.splits)

lemmas register_simps = api_register_def Let_def code_rejected_def users_with_email_def
  new_role_def user_count_def insert_user_def delete_code_def

section \<open>Properties of the account service\<close>

text \<open>
  C4: a successful registration appends exactly one user, numbered by the
  user counter, unbanned, with the submitted email, and makes it
  \<open>super_admin\<close> exactly when the user table was empty; the code of that
  email is consumed.
\<close>

theorem register_role_bootstrap:
  assumes "api_register env f d = (Registered, d')"
  shows "\<exists>u. app_users d' = app_users d @ [u] \<and> u_id u = next_uid d \<and>
    u_role u = (if app_users d = [] then RoleSuperAdmin else RoleUser) \<and>
    u_email u = json_get (rf_email f) \<and> \<not> u_banned u \<and>
    email_codes d' (py_str (json_get (rf_email f))) = None"
proof -
  from api_register_cases [OF assms] obtain pw where
    "d' = delete_code (py_str (json_get (rf_email f)))
           (insert_user \<lparr>nu_email = json_get (rf_email f),
              nu_pw = generate_password_hash (e_salt env) pw, nu_qq = json_get (rf_qq f),
              nu_nickname = json_get_default default_nickname (rf_nickname f),
              nu_avatar = (if py_truthy_str (json_get (rf_qq f)) then get_qq_avatar (json_get (rf_qq f)) else None),
              nu_role = new_role d\<rparr> d)"
    by auto
  then show ?thesis
    by (simp add: insert_user_def delete_code_def new_role_def user_count_def)
qed

theorem register_role_bootstrap_witness:
  "fst (api_register (demo_env 0) (demo_reg ''a@x.io'' ''123456'')
      (empty_db\<lparr>email_codes := [''a@x.io'' \<mapsto> ''123456'']\<rparr>)) = Registered \<and>
   map u_role (app_users (snd (api_register (demo_env 0) (demo_reg ''a@x.io'' ''123456'')
      (empty_db\<lparr>email_codes := [''a@x.io'' \<mapsto> ''123456'']\<rparr>)))) = [RoleSuperAdmin]"
proof -
  let ?d = "empty_db\<lparr>email_codes := [''a@x.io'' \<mapsto> ''123456'']\<rparr>"
  let ?f = "demo_reg ''a@x.io'' ''123456''"
  have h: "api_register (demo_env 0) ?f ?d = (Registered, snd (api_register (demo_env 0) ?f ?d))"
    by (simp add: register_simps empty_db_def)
  from register_role_bootstrap [OF h] have
    "map u_role (app_users (snd (api_register (demo_env 0) ?f ?d))) = [RoleSuperAdmin]"
    by (auto simp: empty_db_def)
  with h show ?thesis by (metis fst_conv)
qed

text \<open>
  C6: registering an email that already has an account never changes the
  store; the answer is the bad-code error when the code does not match and the
  duplicate-email error otherwise (the code is checked first).
\<close>

theorem register_existing_email_rejected:
  assumes "users_with_email d (json_get (rf_email f)) \<noteq> []"
  shows "api_register env f d =
    (if code_rejected d (json_get (rf_email f)) (json_get (rf_code f)) then ErrBadCode else ErrEmailTaken, d)"
  using assms by (simp add: api_register_def Let_def)

theorem register_existing_email_rejected_witness:
  "api_register (demo_env 0) (demo_reg ''a@x.io'' ''123456'')
     (empty_db\<lparr>email_codes := [''a@x.io'' \<mapsto> ''123456''], app_users := [demo_user 1 ''a@x.io'' RoleSuperAdmin]\<rparr>)
   = (ErrEmailTaken,
      empty_db\<lparr>email_codes := [''a@x.io'' \<mapsto> ''123456''], app_users := [demo_user 1 ''a@x.io'' RoleSuperAdmin]\<rparr>)"
  using register_existing_email_rejected [of
      "empty_db\<lparr>email_codes := [''a@x.io'' \<mapsto> ''123456''], app_users := [demo_user 1 ''a@x.io'' RoleSuperAdmin]\<rparr>"
      "demo_reg ''a@x.io'' ''123456''" "demo_env 0"]
  by (simp add: users_with_email_def code_rejected_def)

text \<open>
  C8: a banned account cannot log in, whatever the password: the ban is
  checked before the password and the session is left as it was.
\<close>

theorem login_banned_first:
  assumes "users_with_email d (json_get e) = u # us" and "u_banned u"
  shows "api_login e p d sess = (ErrBanned, sess)"
  using assms by (simp add: api_login_def)

theorem login_banned_first_witness:
  "api_login (JVal ''b@x.io'') (JVal ''secret'')
     (empty_db\<lparr>app_users := [(demo_user 2 ''b@x.io'' RoleUser)\<lparr>u_banned := True\<rparr>]\<rparr>) empty_session
   = (ErrBanned, empty_session)"
  using login_banned_first [of "empty_db\<lparr>app_users := [(demo_user 2 ''b@x.io'' RoleUser)\<lparr>u_banned := True\<rparr>]\<rparr>"
      "JVal ''b@x.io''" "(demo_user 2 ''b@x.io'' RoleUser)\<lparr>u_banned := True\<rparr>" "[]" "JVal ''secret''" empty_session]
  by (simp add: users_with_email_def)

text \<open>
  C9: login succeeds exactly when the first account with the email is not
  banned and the password matches its stored hash, and then the session holds
  that account's id, role and nickname.
\<close>

theorem login_success_iff:
  "api_login e p d sess = (LoginOk u, sess') \<longleftrightarrow>
     (\<exists>us pw. users_with_email d (json_get e) = u # us \<and> \<not> u_banned u \<and>
        json_get p = Some pw \<and> check_password_hash (u_pw u) pw \<and>
        sess' = sess\<lparr>s_user_id := Some (u_id u), s_role := Some (u_role u),
                     s_nickname := u_nickname u\<rparr>)"
  by (auto simp: api_login_def Let_def split: list.splits option.splits if_splits)

text \<open>
  C31: the profile handler refuses without a session (401) and for an unknown
  action (400), and a password change with no password raises (500); none of
  these changes the store.
\<close>

theorem profile_error_branches:
  "(\<not> py_truthy_nat (s_user_id sess) \<longrightarrow> update_profile env sess f d = (ErrNotLoggedIn, d)) \<and>
   (py_truthy_nat (s_user_id sess) \<and> json_get (pf_action f) \<noteq> Some ''bind_qq'' \<and>
    json_get (pf_action f) \<noteq> Some ''change_pwd'' \<longrightarrow> update_profile env sess f d = (ErrUnknownAction, d)) \<and>
   (py_truthy_nat (s_user_id sess) \<and> json_get (pf_action f) = Some ''change_pwd'' \<and>
    json_get (pf_password f) = None \<longrightarrow> update_profile env sess f d = (ErrUnhandled, d))"
  by (simp add: update_profile_def Let_def)

theorem profile_error_branches_witness:
  "update_profile (demo_env 0) empty_session \<lparr>pf_action = JVal ''bind_qq'', pf_qq = JVal ''1'', pf_password = JAbsent\<rparr> empty_db
     = (ErrNotLoggedIn, empty_db) \<and>
   update_profile (demo_env 0) (demo_member 1 RoleUser) \<lparr>pf_action = JVal ''rename'', pf_qq = JAbsent, pf_password = JAbsent\<rparr> empty_db
     = (ErrUnknownAction, empty_db) \<and>
   update_profile (demo_env 0) (demo_member 1 RoleUser) \<lparr>pf_action = JVal ''change_pwd'', pf_qq = JAbsent, pf_password = JNull\<rparr> empty_db
     = (ErrUnhandled, empty_db)"
  using profile_error_branches [of empty_session "demo_env 0" "\<lparr>pf_action = JVal ''bind_qq'', pf_qq = JVal ''1'', pf_password = JAbsent\<rparr>" empty_db]
    profile_error_branches [of "demo_member 1 RoleUser" "demo_env 0" "\<lparr>pf_action = JVal ''rename'', pf_qq = JAbsent, pf_password = JAbsent\<rparr>" empty_db]
    profile_error_branches [of "demo_member 1 RoleUser" "demo_env 0" "\<lparr>pf_action = JVal ''change_pwd'', pf_qq = JAbsent, pf_password = JNull\<rparr>" empty_db]
  by (simp add: empty_session_def)

text \<open>
  C32: binding a QQ number rewrites the QQ number and the avatar URL of the
  session's user, and only of that user.
\<close>

theorem bind_qq_effect:
  assumes "py_truthy_nat (s_user_id sess)" and "json_get (pf_action f) = Some ''bind_qq''"
  shows "update_profile env sess f d =
    (QqBound, d\<lparr>app_users := map (\<lambda>u. if Some (u_id u) = s_user_id sess
        then u\<lparr>u_qq := json_get (pf_qq f), u_avatar := get_qq_avatar (json_get (pf_qq f))\<rparr> else u)
      (app_users d)\<rparr>)"
proof -
  from assms(1) obtain i where i: "s_user_id sess = Some i" by (cases "s_user_id sess") auto
  from assms i show ?thesis
    by (simp add: update_profile_def update_user_def Let_def)
qed

theorem bind_qq_effect_witness:
  "update_profile (demo_env 0) (demo_member 1 RoleUser) \<lparr>pf_action = JVal ''bind_qq'', pf_qq = JVal ''10001'', pf_password = JAbsent\<rparr>
     (empty_db\<lparr>app_users := [demo_user 1 ''a@x.io'' RoleSuperAdmin, demo_user 2 ''b@x.io'' RoleUser]\<rparr>)
   = (QqBound, empty_db\<lparr>app_users := [(demo_user 1 ''a@x.io'' RoleSuperAdmin)\<lparr>u_qq := Some ''10001'',
        u_avatar := Some ''https://q1.qlogo.cn/g?b=qq&nk=10001&s=640''\<rparr>, demo_user 2 ''b@x.io'' RoleUser]\<rparr>)"
  using bind_qq_effect [of "demo_member 1 RoleUser" "\<lparr>pf_action = JVal ''bind_qq'', pf_qq = JVal ''10001'', pf_password = JAbsent\<rparr>"
      "demo_env 0" "empty_db\<lparr>app_users := [demo_user 1 ''a@x.io'' RoleSuperAdmin, demo_user 2 ''b@x.io'' RoleUser]\<rparr>"]
  by (simp add: qq_avatar_prefix_def qq_avatar_suffix_def)
end
