(* ===== verification/Admission.thy ===== *)
theory Admission
  imports Api
begin

text \<open>
  The admission controller, the guest branch of \<open>post_message\<close>
  (\<open>src/api/index.py\<close> lines 205-223): the requester's address is the first
  \<open>X-Forwarded-For\<close> header value when there is one, else the connection's
  address; a requester whose session has no (truthy) \<open>user_id\<close> is a guest,
  and a guest is refused once the store holds five messages from that address
  created in the last 24 hours. Members are not counted.
\<close>

section \<open>Address and identity\<close>

text \<open>
  \<open>request.headers.getlist("X-Forwarded-For")[0]\<close>: the whole first header
  value, as sent, which may itself be a comma-separated chain.
\<close>

fun resolve_ip :: "string list \<Rightarrow> ip_addr \<Rightarrow> ip_addr" where
  "resolve_ip [] remote = remote"
| "resolve_ip (h # _) remote = h"

definition is_guest_session :: "session \<Rightarrow> bool" where
  "is_guest_session sess \<longleftrightarrow> \<not> py_truthy_nat (s_user_id sess)"

section \<open>The quota\<close>

definition quota_window :: int where
  "quota_window = 86400" \<comment> \<open>\<open>timedelta(days=1)\<close> in seconds\<close>

definition guest_limit :: nat where
  "guest_limit = 5"

text \<open>
  \<open>select('id', count='exact').eq('ip_address', ip).gte('created_at', one_day_ago)\<close>:
  every message from the address, a member's or a guest's, deleted or not.
\<close>

definition in_window :: "timestamp \<Rightarrow> ip_addr \<Rightarrow> message \<Rightarrow> bool" where
  "in_window now ip m \<longleftrightarrow> m_ip m = ip \<and> now - quota_window \<le> m_created m"

definition recent_count :: "db \<Rightarrow> ip_addr \<Rightarrow> timestamp \<Rightarrow> nat" where
  "recent_count d ip now = length (filter (in_window now ip) (messages d))"

text \<open>
  The decision: \<open>Inl\<close> the refusal, \<open>Inr\<close> the \<open>is_guest\<close> flag the message
  is stored with.
\<close>

definition admission :: "session \<Rightarrow> db \<Rightarrow> ip_addr \<Rightarrow> timestamp \<Rightarrow> api_result + bool" where
  "admission sess d ip now =
     (if is_guest_session sess
      then (if guest_limit \<le> recent_count d ip now then Inl ErrGuestQuota else Inr True)
      else Inr False)"

section \<open>Lemmas\<close>

lemma admission_Inl: "admission sess d ip now = Inl r \<Longrightarrow> r = ErrGuestQuota"
  by (auto simp: admission_def split: if_splits)

lemma admission_guest_flag:
  "admission sess d ip now = Inr g \<Longrightarrow> g = is_guest_session sess"
  by (auto simp: admission_def split: if_splits)

lemma admission_guest_below:
  "admission sess d ip now = Inr True \<Longrightarrow> recent_count d ip now < guest_limit"
  by (auto simp: admission_def split: if_splits)

lemma admission_member [simp]:
  "\<not> is_guest_session sess \<Longrightarrow> admission sess d ip now = Inr False"
  by (simp add: admission_def)

lemma is_guest_session_iff:
  "is_guest_session sess \<longleftrightarrow> s_user_id sess = None \<or> s_user_id sess = Some 0"
  by (cases "s_user_id sess") (auto simp: is_guest_session_def)

end
