(* ===== verification/Messages.thy ===== *)
theory Messages
  imports Admission
begin

text \<open>
  The message service of \<open>src/api/index.py\<close>: \<open>get_messages\<close> (lines
  191-195), \<open>post_message\<close> (197-243) and \<open>delete_message\<close> (245-268).
  Posting checks the content, runs the admission controller (theory
  \<open>Admission\<close>), labels the message with location and device and inserts it;
  listing returns the 50 newest messages, newest first, each joined with its
  author's public columns; deleting is a soft delete that keeps the row and
  overwrites its content with a fixed text.
\<close>

section \<open>Listing\<close>

definition author_of :: "app_user \<Rightarrow> author_info" where
  "author_of u = \<lparr>a_nickname = u_nickname u, a_avatar = u_avatar u, a_role = u_role u,
     a_qq = u_qq u\<rparr>"

definition with_author :: "db \<Rightarrow> message \<Rightarrow> message \<times> author_info option" where
  "with_author d m =
     (m, case m_user_id m of None \<Rightarrow> None | Some i \<Rightarrow> map_option author_of (user_by_id d i))"

definition list_limit :: nat where
  "list_limit = 50"

text \<open>\<open>order('created_at', desc=True).limit(50)\<close>; rows with equal times keep table order.\<close>

definition newest_first :: "message list \<Rightarrow> message list" where
  "newest_first ms = sort_key (\<lambda>m. - m_created m) ms"

definition listed :: "db \<Rightarrow> message list" where
  "listed d = take list_limit (newest_first (messages d))"

definition get_messages :: "db \<Rightarrow> api_result" where
  "get_messages d = MessageList (map (with_author d) (listed d))"

section \<open>Posting\<close>

text \<open>The \<open>payload\<close> dict of lines 229-237, with the labels of lines 205-227.\<close>

definition post_payload ::
  "req_env \<Rightarrow> session \<Rightarrow> string \<Rightarrow> nat option \<Rightarrow> bool \<Rightarrow> msg_payload" where
  "post_payload env sess content parent_id is_guest =
     (let ip = resolve_ip (e_xff env) (e_remote env) in
      \<lparr>p_content = content, p_user_id = s_user_id sess, p_guest = is_guest, p_ip = ip,
       p_location = get_ip_info ip (e_geo env), p_device = get_device_info (e_ua env),
       p_parent = parent_id\<rparr>)"

definition post_message ::
  "req_env \<Rightarrow> session \<Rightarrow> string json \<Rightarrow> nat json \<Rightarrow> db \<Rightarrow> api_result \<times> db" where
  "post_message env sess content_field parent_field d =
     (let content = json_get content_field; parent_id = json_get parent_field in
      if \<not> py_truthy_str content then (ErrEmptyContent, d)
      else
        (let ip = resolve_ip (e_xff env) (e_remote env) in
         case admission sess d ip (e_now env) of
           Inl err \<Rightarrow> (err, d)
         | Inr is_guest \<Rightarrow>
             (if e_store_ok env
              then (Posted, insert_message (e_now env) (post_payload env sess (the content) parent_id is_guest) d)
              else (ErrStoreFailed, d))))"

section \<open>Soft delete\<close>

text \<open>The replacement text of line 265.\<close>

definition redacted_text :: string where
  "redacted_text = utf8 [230, 173, 164, 230, 157, 161, 233, 128, 154, 228, 191, 161, 229, 183,
     178, 232, 162, 171, 230, 139, 166, 230, 136, 170, 47, 230, 146, 164, 229, 155, 158]"

definition redact :: "message \<Rightarrow> message" where
  "redact m = m\<lparr>m_deleted := True, m_content := redacted_text\<rparr>"

text \<open>\<open>user_role in ['super_admin', 'admin']\<close>, else \<open>str(owner) == str(user_id)\<close>.\<close>

definition can_delete :: "session \<Rightarrow> message \<Rightarrow> bool" where
  "can_delete sess m \<longleftrightarrow>
     (s_role sess = Some RoleSuperAdmin \<or> s_role sess = Some RoleAdmin) \<or>
     py_str_nat (m_user_id m) = py_str_nat (s_user_id sess)"

text \<open>
  \<open>select('user_id').eq('id', msg_id).single().execute()\<close> raises when no
  row has the id (PostgREST answers 406 to a single-object request with zero
  rows), so a missing message ends in Flask's 500 response; the
  \<open>if not msg.data\<close> 404 branch is never taken, as a returned row is a
  non-empty dict.
\<close>

definition delete_message :: "session \<Rightarrow> nat \<Rightarrow> db \<Rightarrow> api_result \<times> db" where
  "delete_message sess msg_id d =
     (if \<not> py_truthy_nat (s_user_id sess) then (ErrNotLoggedIn, d)
      else (case message_by_id d msg_id of
              None \<Rightarrow> (ErrUnhandled, d)
            | Some m \<Rightarrow>
                (if can_delete sess m then (Deleted, update_message msg_id redact d)
                 else (ErrForbidden, d))))"

declare get_messages_def [handler_defs] post_message_def [handler_defs]
  delete_message_def [handler_defs]

section \<open>Lemmas\<close>

lemma post_message_cases:
  "post_message env sess c p d = (r, d') \<Longrightarrow>
     (r = Posted \<and> py_truthy_str (json_get c) \<and> e_store_ok env \<and>
      admission sess d (resolve_ip (e_xff env) (e_remote env)) (e_now env) = Inr (is_guest_session sess) \<and>
      d' = insert_message (e_now env)
             (post_payload env sess (the (json_get c)) (json_get p) (is_guest_session sess)) d)
     \<or> (r \<noteq> Posted \<and> d' = d)"
  by (auto simp: post_message_def Let_def dest: admission_Inl admission_guest_flag
           split: if_splits sum.splits)

lemma post_payload_fields [simp]:
  "p_user_id (post_payload env sess c p g) = s_user_id sess"
  "p_guest (post_payload env sess c p g) = g"
  "p_ip (post_payload env sess c p g) = resolve_ip (e_xff env) (e_remote env)"
  "p_content (post_payload env sess c p g) = c"
  "p_parent (post_payload env sess c p g) = p"
  by (simp_all add: post_payload_def Let_def)

lemma post_message_unchanged:
  "post_message env sess c p d = (r, d') \<Longrightarrow> r \<noteq> Posted \<Longrightarrow> d' = d"
  using post_message_cases by blast

lemma can_delete_iff:
  "can_delete sess m \<longleftrightarrow>
     s_role sess = Some RoleSuperAdmin \<or> s_role sess = Some RoleAdmin \<or> m_user_id m = s_user_id sess"
  by (simp add: can_delete_def)

lemma delete_message_cases:
  "delete_message sess i d = (r, d') \<Longrightarrow>
     (r = Deleted \<and> py_truthy_nat (s_user_id sess) \<and>
      (\<exists>m. message_by_id d i = Some m \<and> can_delete sess m) \<and> d' = update_message i redact d)
     \<or> (r \<noteq> Deleted \<and> d' = d)"
  by (auto simp: delete_message_def split: if_splits option.splits)

lemma messages_update_message:
  "messages (update_message i f d) = map (\<lambda>m. if m_id m = i then f m else m) (messages d)"
  by (simp add: update_message_def)

lemma newest_first_sorted: "sorted_wrt (\<ge>) (map m_created (newest_first ms))"
proof -
  have "sorted (map (\<lambda>m. - m_created m) (sort_key (\<lambda>m. - m_created m) ms))"
    by (rule sorted_sort_key)
  then show ?thesis
    by (simp add: newest_first_def sorted_wrt_map sorted_map)
qed

lemma length_newest_first [simp]: "length (newest_first ms) = length ms"
  by (simp add: newest_first_def)

lemma set_newest_first [simp]: "set (newest_first ms) = set ms"
  by (simp add: newest_first_def)

lemma sorted_wrt_take_drop:
  "sorted_wrt R xs \<Longrightarrow> x \<in> set (take n xs) \<Longrightarrow> y \<in> set (drop n xs) \<Longrightarrow> R x y"
  by (metis append_take_drop_id sorted_wrt_append)

text \<open>A message newer than every stored one heads the next listing.\<close>

lemma listed_insert_newest:
  assumes "\<forall>m \<in> set (messages d). m_created m < now"
  shows "listed (insert_message now p d) =
           new_message (next_mid d) now p # take (list_limit - 1) (newest_first (messages d))"
proof -
  have "newest_first (messages (insert_message now p d)) =
          new_message (next_mid d) now p # newest_first (messages d)"
    using assms by (simp add: newest_first_def insert_message_def new_message_def sort_key_snoc_least)
  then show ?thesis by (simp add: listed_def list_limit_def)
qed

section \<open>Properties of the message service\<close>

text \<open>
  C1: a post with non-empty content is refused with the quota error, and the
  store left as it was, exactly when the requester is a guest and the store
  already holds at least five messages from the requester's address created
  in the last 24 hours.
\<close>

theorem post_guest_quota_iff:
  "post_message env sess c p d = (ErrGuestQuota, d) \<longleftrightarrow>
     py_truthy_str (json_get c) \<and> is_guest_session sess \<and>
     guest_limit \<le> recent_count d (resolve_ip (e_xff env) (e_remote env)) (e_now env)"
  by (auto simp: post_message_def admission_def Let_def split: if_splits sum.splits)

theorem post_guest_quota_iff_witness:
  "post_message (demo_env 100) empty_session (JVal ''hi'') JAbsent
     (empty_db\<lparr>messages := map (\<lambda>i. demo_msg i None ''10.0.0.7'' 50) [1, 2, 3, 4, 5]\<rparr>)
   = (ErrGuestQuota, empty_db\<lparr>messages := map (\<lambda>i. demo_msg i None ''10.0.0.7'' 50) [1, 2, 3, 4, 5]\<rparr>)"
  using post_guest_quota_iff [of "demo_env 100" empty_session "JVal ''hi''" JAbsent
      "empty_db\<lparr>messages := map (\<lambda>i. demo_msg i None ''10.0.0.7'' 50) [1, 2, 3, 4, 5]\<rparr>"]
  by (simp add: is_guest_session_def empty_session_def guest_limit_def recent_count_def
      in_window_def quota_window_def)

text \<open>
  C3: a requester whose session carries a user id is never subject to the
  guest quota: a non-empty post with a working store is accepted and appended
  as a non-guest message, whatever the number of recent messages from the
  address.
\<close>

theorem post_member_no_quota:
  assumes "py_truthy_str (json_get c)" and "\<not> is_guest_session sess" and "e_store_ok env"
  shows "\<exists>d'. post_message env sess c p d = (Posted, d') \<and>
           messages d' = messages d @ [new_message (next_mid d) (e_now env)
             \<lparr>p_content = the (json_get c), p_user_id = s_user_id sess, p_guest = False,
              p_ip = resolve_ip (e_xff env) (e_remote env),
              p_location = get_ip_info (resolve_ip (e_xff env) (e_remote env)) (e_geo env),
              p_device = get_device_info (e_ua env), p_parent = json_get p\<rparr>]"
  using assms by (simp add: post_message_def post_payload_def Let_def insert_message_def)

theorem post_member_no_quota_witness:
  "recent_count (empty_db\<lparr>messages := map (\<lambda>i. demo_msg i None ''10.0.0.7'' 50) [1, 2, 3, 4, 5, 6]\<rparr>)
     ''10.0.0.7'' 100 = 6 \<and>
   fst (post_message (demo_env 100) (demo_member 3 RoleUser) (JVal ''hi'') JAbsent
     (empty_db\<lparr>messages := map (\<lambda>i. demo_msg i None ''10.0.0.7'' 50) [1, 2, 3, 4, 5, 6]\<rparr>)) = Posted"
proof -
  have "\<exists>d'. post_message (demo_env 100) (demo_member 3 RoleUser) (JVal ''hi'') JAbsent
     (empty_db\<lparr>messages := map (\<lambda>i. demo_msg i None ''10.0.0.7'' 50) [1, 2, 3, 4, 5, 6]\<rparr>) = (Posted, d')"
    using post_member_no_quota [of "JVal ''hi''" "demo_member 3 RoleUser" "demo_env 100" JAbsent
        "empty_db\<lparr>messages := map (\<lambda>i. demo_msg i None ''10.0.0.7'' 50) [1, 2, 3, 4, 5, 6]\<rparr>"]
    by (auto simp: is_guest_session_def)
  then show ?thesis
    by (auto simp: recent_count_def in_window_def quota_window_def)
qed

text \<open>
  C11: a successful delete is a soft delete: every row stays in place, the
  rows with the given id are flagged deleted and carry the fixed replacement
  text while keeping their id, parent, author, address and time, and every
  other row is unchanged.
\<close>

theorem soft_delete_effect:
  assumes "delete_message sess i d = (Deleted, d')"
  shows "length (messages d') = length (messages d) \<and>
    (\<forall>k < length (messages d).
       (if m_id (messages d ! k) = i
        then m_deleted (messages d' ! k) \<and> m_content (messages d' ! k) = redacted_text \<and>
             m_id (messages d' ! k) = i \<and>
             m_parent (messages d' ! k) = m_parent (messages d ! k) \<and>
             m_user_id (messages d' ! k) = m_user_id (messages d ! k) \<and>
             m_created (messages d' ! k) = m_created (messages d ! k) \<and>
             m_ip (messages d' ! k) = m_ip (messages d ! k)
        else messages d' ! k = messages d ! k))"
proof -
  from delete_message_cases [OF assms] have "d' = update_message i redact d" by simp
  then show ?thesis by (simp add: messages_update_message redact_def)
qed

theorem soft_delete_effect_witness:
  "m_deleted (messages (update_message 2 redact
      (empty_db\<lparr>messages := [demo_msg 1 None ''1.1.1.1'' 0, demo_msg 2 (Some 4) ''1.1.1.1'' 5]\<rparr>)) ! 1) \<and>
   m_content (messages (update_message 2 redact
      (empty_db\<lparr>messages := [demo_msg 1 None ''1.1.1.1'' 0, demo_msg 2 (Some 4) ''1.1.1.1'' 5]\<rparr>)) ! 0)
     = ''hello''"
proof -
  let ?d = "empty_db\<lparr>messages := [demo_msg 1 None ''1.1.1.1'' 0, demo_msg 2 (Some 4) ''1.1.1.1'' 5]\<rparr>"
  have h: "delete_message (demo_member 4 RoleUser) 2 ?d = (Deleted, update_message 2 redact ?d)"
    by (simp add: delete_message_def message_by_id_def can_delete_def)
  from soft_delete_effect [OF h] have
    "m_deleted (messages (update_message 2 redact ?d) ! 1) \<and>
     messages (update_message 2 redact ?d) ! 0 = messages ?d ! 0"
    by (auto simp: empty_db_def)
  then show ?thesis by simp
qed

text \<open>
  C12: every refusal of \<open>delete_message\<close> leaves the store unchanged: without
  a logged-in session it answers 401, for an id no message has the
  uncaught \<open>.single()\<close> error (500, not the 404 the code means), and to a
  session that is neither admin, super admin nor the message's author 403.
\<close>

theorem delete_rejections:
  "(\<not> py_truthy_nat (s_user_id sess) \<longrightarrow> delete_message sess i d = (ErrNotLoggedIn, d)) \<and>
   (py_truthy_nat (s_user_id sess) \<and> (\<forall>m \<in> set (messages d). m_id m \<noteq> i) \<longrightarrow>
      delete_message sess i d = (ErrUnhandled, d)) \<and>
   (py_truthy_nat (s_user_id sess) \<and> message_by_id d i = Some m \<and>
    s_role sess \<noteq> Some RoleAdmin \<and> s_role sess \<noteq> Some RoleSuperAdmin \<and>
    m_user_id m \<noteq> s_user_id sess \<longrightarrow> delete_message sess i d = (ErrForbidden, d))"
  by (auto simp: delete_message_def can_delete_iff message_by_id_None [symmetric])

theorem delete_rejections_witness:
  "delete_message empty_session 1 (empty_db\<lparr>messages := [demo_msg 1 (Some 2) ''1.1.1.1'' 0]\<rparr>)
     = (ErrNotLoggedIn, empty_db\<lparr>messages := [demo_msg 1 (Some 2) ''1.1.1.1'' 0]\<rparr>) \<and>
   delete_message (demo_member 3 RoleUser) 9 (empty_db\<lparr>messages := [demo_msg 1 (Some 2) ''1.1.1.1'' 0]\<rparr>)
     = (ErrUnhandled, empty_db\<lparr>messages := [demo_msg 1 (Some 2) ''1.1.1.1'' 0]\<rparr>) \<and>
   delete_message (demo_member 3 RoleUser) 1 (empty_db\<lparr>messages := [demo_msg 1 (Some 2) ''1.1.1.1'' 0]\<rparr>)
     = (ErrForbidden, empty_db\<lparr>messages := [demo_msg 1 (Some 2) ''1.1.1.1'' 0]\<rparr>)"
  using delete_rejections [of empty_session 1 "empty_db\<lparr>messages := [demo_msg 1 (Some 2) ''1.1.1.1'' 0]\<rparr>"]
    delete_rejections [of "demo_member 3 RoleUser" 9 "empty_db\<lparr>messages := [demo_msg 1 (Some 2) ''1.1.1.1'' 0]\<rparr>"]
    delete_rejections [of "demo_member 3 RoleUser" 1 "empty_db\<lparr>messages := [demo_msg 1 (Some 2) ''1.1.1.1'' 0]\<rparr>"
      "demo_msg 1 (Some 2) ''1.1.1.1'' 0"]
  by (simp add: empty_session_def message_by_id_def)

text \<open>
  C13: a logged-in admin or super admin, or the message's author, deletes an
  existing message: the answer is success and the store is the soft-deleted
  one.
\<close>

theorem delete_permitted:
  assumes "py_truthy_nat (s_user_id sess)" and "message_by_id d i = Some m"
    and "s_role sess = Some RoleAdmin \<or> s_role sess = Some RoleSuperAdmin \<or> m_user_id m = s_user_id sess"
  shows "delete_message sess i d = (Deleted, update_message i redact d)"
  using assms by (auto simp: delete_message_def can_delete_iff)

theorem delete_permitted_witness:
  "delete_message (demo_member 5 RoleAdmin) 1 (empty_db\<lparr>messages := [demo_msg 1 (Some 2) ''1.1.1.1'' 0]\<rparr>)
     = (Deleted, update_message 1 redact (empty_db\<lparr>messages := [demo_msg 1 (Some 2) ''1.1.1.1'' 0]\<rparr>))"
  using delete_permitted [of "demo_member 5 RoleAdmin"
      "empty_db\<lparr>messages := [demo_msg 1 (Some 2) ''1.1.1.1'' 0]\<rparr>" 1 "demo_msg 1 (Some 2) ''1.1.1.1'' 0"]
  by (simp add: message_by_id_def)

text \<open>
  C22: the listing holds the first 50 messages (all of them when there are
  fewer), newest first, each taken from the store and joined with the public
  columns of its author, if it has one.
\<close>

theorem listing_bounded_sorted:
  assumes "get_messages d = MessageList rows"
  shows "length rows = min 50 (length (messages d)) \<and>
    sorted_wrt (\<ge>) (map (\<lambda>r. m_created (fst r)) rows) \<and>
    fst ` set rows \<subseteq> set (messages d) \<and>
    (\<forall>r \<in> set rows. snd r = (case m_user_id (fst r) of None \<Rightarrow> None
                                | Some i \<Rightarrow> map_option author_of (user_by_id d i)))"
proof -
  from assms have rows: "rows = map (with_author d) (listed d)" by (simp add: get_messages_def)
  have "sorted_wrt (\<ge>) (map m_created (newest_first (messages d)))" by (rule newest_first_sorted)
  then have "sorted_wrt (\<ge>) (map m_created (listed d))"
    by (simp add: listed_def take_map [symmetric] sorted_wrt_take)
  moreover have "fst \<circ> with_author d = id" by (auto simp: with_author_def)
  ultimately show ?thesis
    by (auto simp: rows listed_def list_limit_def with_author_def comp_def dest: in_set_takeD)
qed

theorem listing_bounded_sorted_witness:
  "length (map (with_author (empty_db\<lparr>messages := [demo_msg 1 None ''a'' 5, demo_msg 2 None ''a'' 9, demo_msg 3 None ''a'' 7]\<rparr>))
     (listed (empty_db\<lparr>messages := [demo_msg 1 None ''a'' 5, demo_msg 2 None ''a'' 9, demo_msg 3 None ''a'' 7]\<rparr>))) = 3"
proof -
  let ?d = "empty_db\<lparr>messages := [demo_msg 1 None ''a'' 5, demo_msg 2 None ''a'' 9, demo_msg 3 None ''a'' 7]\<rparr>"
  have h: "get_messages ?d = MessageList (map (with_author ?d) (listed ?d))" by (simp add: get_messages_def)
  from listing_bounded_sorted [OF h] show ?thesis by simp
qed

text \<open>
  C23: no message left out of the listing is newer than any message in it:
  the listing is the newest 50.
\<close>

theorem listing_keeps_newest:
  assumes "get_messages d = MessageList rows" and "m \<in> set (messages d)"
    and "m \<notin> fst ` set rows" and "r \<in> set rows"
  shows "m_created m \<le> m_created (fst r)"
proof -
  let ?L = "newest_first (messages d)"
  from assms(1) have rows: "rows = map (with_author d) (take list_limit ?L)"
    by (simp add: get_messages_def listed_def)
  have fst_wa: "\<And>x. fst (with_author d x) = x" by (simp add: with_author_def)
  from assms(4) rows fst_wa have r: "fst r \<in> set (take list_limit ?L)" by auto
  from assms(2,3) rows fst_wa have "m \<in> set (drop list_limit ?L)"
    by (metis (no_types, lifting) append_take_drop_id image_eqI list.set_map set_append
        set_newest_first Un_iff)
  moreover have "sorted_wrt (\<ge>) (map m_created ?L)" by (rule newest_first_sorted)
  then have "sorted_wrt (\<lambda>x y. m_created y \<le> m_created x) ?L" by (simp add: sorted_wrt_map)
  ultimately show ?thesis using r sorted_wrt_take_drop by fastforce
qed

theorem listing_keeps_newest_witness:
  "m_created (demo_msg 51 None ''a'' 49) \<le> m_created (fst (with_author
      (empty_db\<lparr>messages := map (\<lambda>i. demo_msg i None ''a'' (100 - int i)) [1..<52]\<rparr>) (demo_msg 1 None ''a'' 99)))"
proof -
  let ?d = "empty_db\<lparr>messages := map (\<lambda>i. demo_msg i None ''a'' (100 - int i)) [1..<52]\<rparr>"
  have h: "get_messages ?d = MessageList (map (with_author ?d) (listed ?d))" by (simp add: get_messages_def)
  have L: "listed ?d = map (\<lambda>i. demo_msg i None ''a'' (100 - int i)) [1..<51]"
    by (simp add: listed_def newest_first_def list_limit_def upt_rec)
  have m: "demo_msg 51 None ''a'' 49 \<in> set (messages ?d)" by (simp add: upt_rec)
  have nm: "demo_msg 51 None ''a'' 49 \<notin> fst ` set (map (with_author ?d) (listed ?d))"
    unfolding L by (auto simp: with_author_def)
  have r: "with_author ?d (demo_msg 1 None ''a'' 99) \<in> set (map (with_author ?d) (listed ?d))"
    unfolding L by (simp add: upt_rec)
  from listing_keeps_newest [OF h m nm r] show ?thesis .
qed
text \<open>
  C25: a post with missing or empty content is refused with 400 before the
  quota is looked at, and the store is left as it was.
\<close>

theorem post_empty_rejected:
  assumes "\<not> py_truthy_str (json_get c)"
  shows "post_message env sess c p d = (ErrEmptyContent, d)"
  using assms by (simp add: post_message_def)

theorem post_empty_rejected_witness:
  "recent_count (empty_db\<lparr>messages := map (\<lambda>i. demo_msg i None ''10.0.0.7'' 50) [1, 2, 3, 4, 5, 6]\<rparr>)
     ''10.0.0.7'' 100 = 6 \<and>
   post_message (demo_env 100) empty_session (JVal '''') JAbsent
     (empty_db\<lparr>messages := map (\<lambda>i. demo_msg i None ''10.0.0.7'' 50) [1, 2, 3, 4, 5, 6]\<rparr>)
   = (ErrEmptyContent, empty_db\<lparr>messages := map (\<lambda>i. demo_msg i None ''10.0.0.7'' 50) [1, 2, 3, 4, 5, 6]\<rparr>)"
  using post_empty_rejected [of "JVal ''''" "demo_env 100" empty_session JAbsent
      "empty_db\<lparr>messages := map (\<lambda>i. demo_msg i None ''10.0.0.7'' 50) [1, 2, 3, 4, 5, 6]\<rparr>"]
  by (simp add: recent_count_def in_window_def quota_window_def)

text \<open>
  C26: the guest quota is counted against the first X-Forwarded-For header
  value as sent, not against the connection address nor the chain's first
  entry: a guest that sends a header value with fewer than five recent
  messages is admitted even when its real address has exhausted the quota.
\<close>

theorem guest_quota_keyed_by_header:
  assumes "is_guest_session sess" and "py_truthy_str (json_get c)" and "e_store_ok env"
    and "e_xff env = h # hs" and "recent_count d h (e_now env) < guest_limit"
  shows "fst (post_message env sess c p d) = Posted"
  using assms by (simp add: post_message_def admission_def Let_def)

theorem guest_quota_keyed_by_header_witness:
  "recent_count (empty_db\<lparr>messages := map (\<lambda>i. demo_msg i None ''10.0.0.7'' 50) [1, 2, 3, 4, 5]\<rparr>)
     ''10.0.0.7'' 100 = 5 \<and>
   fst (post_message ((demo_env 100)\<lparr>e_xff := [''203.0.113.9, 10.0.0.7'']\<rparr>) empty_session (JVal ''hi'') JAbsent
     (empty_db\<lparr>messages := map (\<lambda>i. demo_msg i None ''10.0.0.7'' 50) [1, 2, 3, 4, 5]\<rparr>)) = Posted"
  using guest_quota_keyed_by_header [of empty_session "JVal ''hi''" "(demo_env 100)\<lparr>e_xff := [''203.0.113.9, 10.0.0.7'']\<rparr>"
      "''203.0.113.9, 10.0.0.7''" "[]" "empty_db\<lparr>messages := map (\<lambda>i. demo_msg i None ''10.0.0.7'' 50) [1, 2, 3, 4, 5]\<rparr>" JAbsent]
  by (simp add: is_guest_session_def empty_session_def recent_count_def in_window_def quota_window_def guest_limit_def)
end
