(* ===== verification/System.thy ===== *)
theory System
  imports Verification Account Messages
begin

text \<open>
  The whole application of \<open>src/api/index.py\<close> as a machine: one request
  datatype with a constructor per route, the dispatch \<open>handle\<close> that the
  Flask routing performs, the system state (the store, every client's session
  cookie, the mail delivered), and one step per request. Requests are handled
  one after the other, the order in which the store serialises their writes.
  The reachable states are those of any sequence of requests from any client
  under any answers of the outside world; \<open>reachable_clocked\<close> adds that the
  clock never runs behind a stored \<open>created_at\<close>.
\<close>

section \<open>Requests and dispatch\<close>

datatype request =
    ReqIndex
  | ReqSendCode "string json"
  | ReqRegister reg_form
  | ReqLogin "string json" "string json"
  | ReqLogout
  | ReqGetMessages
  | ReqPost "string json" "nat json"
  | ReqDelete nat
  | ReqProfile profile_form

fun handle ::
  "smtp_config \<Rightarrow> req_env \<Rightarrow> session \<Rightarrow> request \<Rightarrow> db \<Rightarrow>
     api_result \<times> session \<times> db \<times> mail option" where
  "handle cfg env sess ReqIndex d = (IndexPage, sess, d, None)"
| "handle cfg env sess (ReqSendCode e) d =
     (case api_send_code cfg env e d of (r, d', sent) \<Rightarrow> (r, sess, d', sent))"
| "handle cfg env sess (ReqRegister f) d =
     (case api_register env f d of (r, d') \<Rightarrow> (r, sess, d', None))"
| "handle cfg env sess (ReqLogin e p) d =
     (case api_login e p d sess of (r, sess') \<Rightarrow> (r, sess', d, None))"
| "handle cfg env sess ReqLogout d =
     (case api_logout sess of (r, sess') \<Rightarrow> (r, sess', d, None))"
| "handle cfg env sess ReqGetMessages d = (get_messages d, sess, d, None)"
| "handle cfg env sess (ReqPost c p) d =
     (case post_message env sess c p d of (r, d') \<Rightarrow> (r, sess, d', None))"
| "handle cfg env sess (ReqDelete i) d =
     (case delete_message sess i d of (r, d') \<Rightarrow> (r, sess, d', None))"
| "handle cfg env sess (ReqProfile f) d =
     (case update_profile env sess f d of (r, d') \<Rightarrow> (r, sess, d', None))"

section \<open>System state and steps\<close>

record sys =
  sys_db :: db
  sys_sessions :: "nat \<Rightarrow> session"
  sys_outbox :: "mail list"

definition init_sys :: sys where
  "init_sys = \<lparr>sys_db = empty_db, sys_sessions = (\<lambda>_. empty_session), sys_outbox = []\<rparr>"

record event =
  ev_client :: nat
  ev_env :: req_env
  ev_req :: request

definition sys_step :: "smtp_config \<Rightarrow> event \<Rightarrow> sys \<Rightarrow> api_result \<times> sys" where
  "sys_step cfg ev s =
     (case handle cfg (ev_env ev) (sys_sessions s (ev_client ev)) (ev_req ev) (sys_db s) of
        (r, sess', d', sent) \<Rightarrow>
          (r, s\<lparr>sys_db := d', sys_sessions := (sys_sessions s)(ev_client ev := sess'),
                sys_outbox := sys_outbox s @ (case sent of None \<Rightarrow> [] | Some m \<Rightarrow> [m])\<rparr>))"

fun run :: "smtp_config \<Rightarrow> sys \<Rightarrow> event list \<Rightarrow> api_result list \<times> sys" where
  "run cfg s [] = ([], s)"
| "run cfg s (ev # evs) =
     (case sys_step cfg ev s of
        (r, s') \<Rightarrow> (case run cfg s' evs of (rs, s'') \<Rightarrow> (r # rs, s'')))"

inductive reachable :: "smtp_config \<Rightarrow> sys \<Rightarrow> bool" for cfg where
  init: "reachable cfg init_sys"
| step: "reachable cfg s \<Longrightarrow> reachable cfg (snd (sys_step cfg ev s))"

definition clock_ok :: "sys \<Rightarrow> req_env \<Rightarrow> bool" where
  "clock_ok s env \<longleftrightarrow> (\<forall>m \<in> set (messages (sys_db s)). m_created m \<le> e_now env)"

inductive reachable_clocked :: "smtp_config \<Rightarrow> sys \<Rightarrow> bool" for cfg where
  init: "reachable_clocked cfg init_sys"
| step: "reachable_clocked cfg s \<Longrightarrow> clock_ok s (ev_env ev) \<Longrightarrow>
           reachable_clocked cfg (snd (sys_step cfg ev s))"

section \<open>The invariant of the store and the sessions\<close>

text \<open>
  What every reachable state keeps: users and messages are numbered
  \<open>1, 2, ...\<close> in table order by the identity counters; the first user is
  the only \<open>super_admin\<close>; no two accounts share an email; a deleted
  message carries the replacement text; a message is a guest's exactly when it
  has no author id, and an author id names an account; every session is empty
  or holds the id and role of an account.
\<close>

definition ids_ok :: "db \<Rightarrow> bool" where
  "ids_ok d \<longleftrightarrow> 0 < next_uid d \<and> 0 < next_mid d \<and>
     map u_id (app_users d) = [1..<next_uid d] \<and> map m_id (messages d) = [1..<next_mid d]"

definition roles_ok :: "db \<Rightarrow> bool" where
  "roles_ok d \<longleftrightarrow>
     (case map u_role (app_users d) of [] \<Rightarrow> True
      | r # rs \<Rightarrow> r = RoleSuperAdmin \<and> list_all (\<lambda>r'. r' = RoleUser) rs)"

definition emails_ok :: "db \<Rightarrow> bool" where
  "emails_ok d \<longleftrightarrow> distinct (filter (\<lambda>e. e \<noteq> None) (map u_email (app_users d)))"

definition redaction_ok :: "db \<Rightarrow> bool" where
  "redaction_ok d \<longleftrightarrow> list_all (\<lambda>m. m_deleted m \<longrightarrow> m_content m = redacted_text) (messages d)"

definition user_pairs :: "db \<Rightarrow> (nat \<times> role) list" where
  "user_pairs d = map (\<lambda>u. (u_id u, u_role u)) (app_users d)"

definition authors_ok :: "db \<Rightarrow> bool" where
  "authors_ok d \<longleftrightarrow> list_all (\<lambda>m. (m_guest m \<longleftrightarrow> m_user_id m = None) \<and>
     set_option (m_user_id m) \<subseteq> fst ` set (user_pairs d)) (messages d)"

definition db_inv :: "db \<Rightarrow> bool" where
  "db_inv d \<longleftrightarrow> ids_ok d \<and> roles_ok d \<and> emails_ok d \<and> redaction_ok d \<and> authors_ok d"

definition session_ok :: "db \<Rightarrow> session \<Rightarrow> bool" where
  "session_ok d s \<longleftrightarrow>
     (s_user_id s = None \<and> s_role s = None) \<or>
     (\<exists>i r. s_user_id s = Some i \<and> s_role s = Some r \<and> (i, r) \<in> set (user_pairs d))"

definition sys_inv :: "sys \<Rightarrow> bool" where
  "sys_inv s \<longleftrightarrow> db_inv (sys_db s) \<and> (\<forall>c. session_ok (sys_db s) (sys_sessions s c))"

section \<open>Basic facts of the dispatch\<close>

lemma reachable_clocked_reachable: "reachable_clocked cfg s \<Longrightarrow> reachable cfg s"
  by (induction rule: reachable_clocked.induct) (auto intro: reachable.intros)

lemma run_Cons_snd:
  "snd (run cfg s (ev # evs)) = snd (run cfg (snd (sys_step cfg ev s)) evs)"
  by (simp split: prod.splits)

lemma run_reachable: "reachable cfg s \<Longrightarrow> reachable cfg (snd (run cfg s evs))"
proof (induction evs arbitrary: s)
  case Nil
  then show ?case by simp
next
  case (Cons ev evs)
  from Cons.prems have "reachable cfg (snd (sys_step cfg ev s))" by (rule reachable.step)
  then have "reachable cfg (snd (run cfg (snd (sys_step cfg ev s)) evs))" by (rule Cons.IH)
  then show ?case by (simp only: run_Cons_snd)
qed

section \<open>Preservation of the invariant\<close>

lemmas inv_defs = ids_ok_def roles_ok_def emails_ok_def redaction_ok_def authors_ok_def

lemma db_inv_frame:
  assumes "app_users d' = app_users d" "messages d' = messages d"
    "next_uid d' = next_uid d" "next_mid d' = next_mid d"
  shows "db_inv d' = db_inv d"
  using assms by (simp add: db_inv_def inv_defs user_pairs_def)

lemma session_ok_frame:
  "app_users d' = app_users d \<Longrightarrow> session_ok d' s = session_ok d s"
  by (simp add: session_ok_def user_pairs_def)

lemma session_ok_mono:
  "set (user_pairs d) \<subseteq> set (user_pairs d') \<Longrightarrow> session_ok d s \<Longrightarrow> session_ok d' s"
  by (auto simp: session_ok_def)

lemma init_sys_inv: "sys_inv init_sys"
  by (simp add: sys_inv_def init_sys_def db_inv_def inv_defs empty_db_def session_ok_def
      empty_session_def user_pairs_def)

lemma ids_ok_user_pos: "ids_ok d \<Longrightarrow> (i, r) \<in> set (user_pairs d) \<Longrightarrow> 0 < i"
proof -
  assume ids: "ids_ok d" and ir: "(i, r) \<in> set (user_pairs d)"
  from ir have "i \<in> set (map u_id (app_users d))" by (force simp: user_pairs_def)
  with ids show "0 < i" by (simp add: ids_ok_def)
qed

section \<open>Store operations and the invariant\<close>

lemma db_inv_insert_user:
  assumes inv: "db_inv d"
    and role: "nu_role p = new_role d"
    and fresh: "nu_email p = None \<or> (\<forall>u \<in> set (app_users d). u_email u \<noteq> nu_email p)"
  shows "db_inv (insert_user p d) \<and> set (user_pairs d) \<subseteq> set (user_pairs (insert_user p d))"
proof -
  let ?d' = "insert_user p d"
  from inv have ids: "ids_ok d" and roles: "roles_ok d" and em: "emails_ok d"
    and red: "redaction_ok d" and au: "authors_ok d"
    by (simp_all add: db_inv_def)
  have pairs: "set (user_pairs d) \<subseteq> set (user_pairs ?d')"
    by (auto simp: user_pairs_def insert_user_def)
  from ids have "ids_ok ?d'"
    by (simp add: ids_ok_def insert_user_def)
  moreover from roles role have "roles_ok ?d'"
    by (cases "map u_role (app_users d)")
       (auto simp: roles_ok_def insert_user_def new_role_def user_count_def)
  moreover from em fresh have "emails_ok ?d'"
    by (auto simp: emails_ok_def insert_user_def)
  moreover from red have "redaction_ok ?d'"
    by (simp add: redaction_ok_def insert_user_def)
  moreover from au pairs have "authors_ok ?d'"
    by (fastforce simp: authors_ok_def insert_user_fields list_all_iff)
  ultimately show ?thesis using pairs by (simp add: db_inv_def)
qed


lemma update_user_keys:
  assumes "\<And>u. u_id (f u) = u_id u" "\<And>u. u_role (f u) = u_role u" "\<And>u. u_email (f u) = u_email u"
  shows "map u_id (app_users (update_user i f d)) = map u_id (app_users d)"
    "map u_role (app_users (update_user i f d)) = map u_role (app_users d)"
    "map u_email (app_users (update_user i f d)) = map u_email (app_users d)"
    "user_pairs (update_user i f d) = user_pairs d"
  using assms by (simp_all add: update_user_def user_pairs_def)

lemma db_inv_update_user:
  assumes "db_inv d"
    and "\<And>u. u_id (f u) = u_id u" "\<And>u. u_role (f u) = u_role u" "\<And>u. u_email (f u) = u_email u"
  shows "db_inv (update_user i f d) \<and> user_pairs (update_user i f d) = user_pairs d"
  using assms update_user_keys [of f i d]
  by (simp add: db_inv_def inv_defs update_ops_fields)

lemma db_inv_insert_message:
  assumes inv: "db_inv d"
    and author: "(p_user_id p = None \<and> p_guest p) \<or>
                 (\<exists>i. p_user_id p = Some i \<and> i \<in> fst ` set (user_pairs d) \<and> \<not> p_guest p)"
  shows "db_inv (insert_message now p d)"
proof -
  let ?d' = "insert_message now p d"
  from inv have ids: "ids_ok d" and au: "authors_ok d" by (simp_all add: db_inv_def)
  have pairs: "user_pairs ?d' = user_pairs d" by (simp add: user_pairs_def insert_message_fields)
  from ids have "ids_ok ?d'" by (simp add: ids_ok_def insert_message_def new_message_def)
  moreover from au author pairs have "authors_ok ?d'"
    by (auto simp: authors_ok_def insert_message_def new_message_def intro: rev_image_eqI)
  moreover from inv have "roles_ok ?d' \<and> emails_ok ?d' \<and> redaction_ok ?d'"
    by (simp add: db_inv_def inv_defs insert_message_def new_message_def)
  ultimately show ?thesis by (simp add: db_inv_def)
qed

lemma map_update_message_field:
  "(\<And>m. g (f m) = g m) \<Longrightarrow> map g (messages (update_message i f d)) = map g (messages d)"
  by (simp add: update_message_def)

lemma db_inv_update_message_redact:
  assumes "db_inv d"
  shows "db_inv (update_message i redact d)"
proof -
  have "map m_id (messages (update_message i redact d)) = map m_id (messages d)"
    by (rule map_update_message_field) (simp add: redact_def)
  moreover have "redaction_ok (update_message i redact d)" if "redaction_ok d"
    using that by (auto simp: redaction_ok_def update_message_def redact_def list_all_iff)
  moreover have "authors_ok (update_message i redact d)" if "authors_ok d"
    using that by (auto simp: authors_ok_def update_message_def redact_def list_all_iff
        user_pairs_def update_ops_fields)
  ultimately show ?thesis using assms
    by (simp add: db_inv_def ids_ok_def roles_ok_def emails_ok_def update_ops_fields)
qed


section \<open>Handlers and the invariant\<close>

lemma api_send_code_frame:
  "api_send_code cfg env e d = (r, d', m) \<Longrightarrow>
     app_users d' = app_users d \<and> messages d' = messages d \<and>
     next_uid d' = next_uid d \<and> next_mid d' = next_mid d"
  by (auto simp: api_send_code_def Let_def code_ops_fields split: if_splits prod.splits)

lemma api_register_inv:
  assumes inv: "db_inv d" and reg: "api_register env f d = (r, d')"
  shows "db_inv d' \<and> set (user_pairs d) \<subseteq> set (user_pairs d')"
  using api_register_cases [OF reg]
proof
  assume ok: "r = Registered \<and> \<not> code_rejected d (json_get (rf_email f)) (json_get (rf_code f)) \<and>
      users_with_email d (json_get (rf_email f)) = [] \<and>
      (\<exists>pw. json_get (rf_password f) = Some pw \<and>
        d' = delete_code (py_str (json_get (rf_email f)))
               (insert_user \<lparr>nu_email = json_get (rf_email f),
                  nu_pw = generate_password_hash (e_salt env) pw, nu_qq = json_get (rf_qq f),
                  nu_nickname = json_get_default default_nickname (rf_nickname f),
                  nu_avatar = (if py_truthy_str (json_get (rf_qq f)) then get_qq_avatar (json_get (rf_qq f)) else None),
                  nu_role = new_role d\<rparr> d)) \<and> e_store_ok env"
  then obtain row where d': "d' = delete_code (py_str (json_get (rf_email f))) (insert_user row d)"
    and role: "nu_role row = new_role d" and em: "nu_email row = json_get (rf_email f)"
    by auto
  from ok have "\<forall>u \<in> set (app_users d). u_email u \<noteq> Some (py_str (json_get (rf_email f)))"
    by (simp add: users_with_email_Nil)
  then have "nu_email row = None \<or> (\<forall>u \<in> set (app_users d). u_email u \<noteq> nu_email row)"
    by (cases "json_get (rf_email f)") (auto simp: em)
  from db_inv_insert_user [OF inv role this] have
    "db_inv (insert_user row d) \<and> set (user_pairs d) \<subseteq> set (user_pairs (insert_user row d))" .
  moreover have "db_inv d' = db_inv (insert_user row d)"
    by (rule db_inv_frame) (simp_all add: d' code_ops_fields)
  moreover have "user_pairs d' = user_pairs (insert_user row d)"
    by (simp add: d' user_pairs_def code_ops_fields)
  ultimately show ?thesis by simp
next
  assume "r \<noteq> Registered \<and> d' = d"
  with inv show ?thesis by simp
qed

lemma session_ok_login:
  "session_ok d sess \<Longrightarrow> api_login e p d sess = (r, sess') \<Longrightarrow> session_ok d sess'"
proof (cases "\<exists>u. r = LoginOk u")
  case True
  assume "api_login e p d sess = (r, sess')"
  with True obtain u where "api_login e p d sess = (LoginOk u, sess')" by auto
  from api_login_LoginOk [OF this] have "u \<in> set (app_users d)"
    and s: "s_user_id sess' = Some (u_id u)" "s_role sess' = Some (u_role u)"
    by (auto simp: users_with_email_def dest!: hd_in_set)
  then show ?thesis by (force simp: session_ok_def user_pairs_def)
next
  case False
  assume "session_ok d sess" "api_login e p d sess = (r, sess')"
  with False api_login_session_unchanged show ?thesis by metis
qed

lemma post_message_inv:
  assumes inv: "db_inv d" and sess: "session_ok d s"
    and post: "post_message env s c p d = (r, d')"
  shows "db_inv d' \<and> user_pairs d' = user_pairs d"
proof (cases "r = Posted")
  case True
  with post_message_cases [OF post] have d':
    "d' = insert_message (e_now env) (post_payload env s (the (json_get c)) (json_get p) (is_guest_session s)) d"
    by simp
  let ?pl = "post_payload env s (the (json_get c)) (json_get p) (is_guest_session s)"
  from inv have ids: "ids_ok d" by (simp add: db_inv_def)
  from sess have "(p_user_id ?pl = None \<and> p_guest ?pl) \<or>
      (\<exists>i. p_user_id ?pl = Some i \<and> i \<in> fst ` set (user_pairs d) \<and> \<not> p_guest ?pl)"
    using ids_ok_user_pos [OF ids]
    by (force simp: session_ok_def is_guest_session_iff)
  from db_inv_insert_message [OF inv this] show ?thesis
    by (simp add: d' user_pairs_def insert_message_fields)
next
  case False
  with post_message_cases [OF post] inv show ?thesis by simp
qed

lemma delete_message_inv:
  "db_inv d \<Longrightarrow> delete_message sess i d = (r, d') \<Longrightarrow> db_inv d' \<and> user_pairs d' = user_pairs d"
  by (auto dest!: delete_message_cases simp: db_inv_update_message_redact user_pairs_def update_ops_fields)

lemma update_profile_inv:
  "db_inv d \<Longrightarrow> update_profile env sess f d = (r, d') \<Longrightarrow> db_inv d' \<and> user_pairs d' = user_pairs d"
  by (auto dest!: update_profile_cases intro: db_inv_update_user [THEN conjunct1]
      simp: db_inv_update_user [THEN conjunct2])


lemma handle_simps:
  "handle cfg env s ReqIndex d = (IndexPage, s, d, None)"
  "handle cfg env s ReqGetMessages d = (get_messages d, s, d, None)"
  "handle cfg env s (ReqSendCode e) d =
     (fst (api_send_code cfg env e d), s, fst (snd (api_send_code cfg env e d)),
      snd (snd (api_send_code cfg env e d)))"
  "handle cfg env s (ReqRegister f) d =
     (fst (api_register env f d), s, snd (api_register env f d), None)"
  "handle cfg env s (ReqLogin e p) d = (fst (api_login e p d s), snd (api_login e p d s), d, None)"
  "handle cfg env s ReqLogout d = (LoggedOut, empty_session, d, None)"
  "handle cfg env s (ReqPost c q) d =
     (fst (post_message env s c q d), s, snd (post_message env s c q d), None)"
  "handle cfg env s (ReqDelete i) d =
     (fst (delete_message s i d), s, snd (delete_message s i d), None)"
  "handle cfg env s (ReqProfile g) d =
     (fst (update_profile env s g d), s, snd (update_profile env s g d), None)"
  by (simp_all add: api_logout_def split: prod.split)


lemma handle_inv_ReqIndex:
  assumes R: "req = ReqIndex" and inv: "db_inv d" and sess: "session_ok d s"
    and h: "handle cfg env s req d = (r, s', d', m)"
  shows "db_inv d' \<and> session_ok d' s' \<and> set (user_pairs d) \<subseteq> set (user_pairs d')"
proof -
  from h [unfolded R handle_simps] have "s' = s" "d' = d" by simp_all
  with inv sess show ?thesis by simp
qed

lemma handle_inv_ReqGetMessages:
  assumes R: "req = ReqGetMessages" and inv: "db_inv d" and sess: "session_ok d s"
    and h: "handle cfg env s req d = (r, s', d', m)"
  shows "db_inv d' \<and> session_ok d' s' \<and> set (user_pairs d) \<subseteq> set (user_pairs d')"
proof -
  from h [unfolded R handle_simps] have "s' = s" "d' = d" by simp_all
  with inv sess show ?thesis by simp
qed

lemma handle_inv_ReqSendCode:
  assumes R: "req = ReqSendCode e" and inv: "db_inv d" and sess: "session_ok d s"
    and h: "handle cfg env s req d = (r, s', d', m)"
  shows "db_inv d' \<and> session_ok d' s' \<and> set (user_pairs d) \<subseteq> set (user_pairs d')"
proof -
  from h [unfolded R handle_simps] have "api_send_code cfg env e d = (r, d', m)" and "s' = s"
    by (simp_all add: prod_eq_iff)
  from api_send_code_frame [OF this(1)] have fr:
    "app_users d' = app_users d" "messages d' = messages d"
    "next_uid d' = next_uid d" "next_mid d' = next_mid d" by simp_all
  have "db_inv d' = db_inv d" using fr by (rule db_inv_frame)
  moreover have "session_ok d' s' = session_ok d s"
    using session_ok_frame [of d' d s] fr \<open>s' = s\<close> by simp
  moreover have "user_pairs d' = user_pairs d" using fr by (simp add: user_pairs_def)
  ultimately show ?thesis using inv sess by simp
qed

lemma handle_inv_ReqRegister:
  assumes R: "req = ReqRegister f" and inv: "db_inv d" and sess: "session_ok d s"
    and h: "handle cfg env s req d = (r, s', d', m)"
  shows "db_inv d' \<and> session_ok d' s' \<and> set (user_pairs d) \<subseteq> set (user_pairs d')"
proof -
  from h [unfolded R handle_simps] have reg: "api_register env f d = (r, d')" and "s' = s"
    by (simp_all add: prod_eq_iff)
  from api_register_inv [OF inv reg] have "db_inv d'" and pairs: "set (user_pairs d) \<subseteq> set (user_pairs d')"
    by simp_all
  moreover from session_ok_mono [OF pairs sess] have "session_ok d' s'" using \<open>s' = s\<close> by simp
  ultimately show ?thesis by simp
qed

lemma handle_inv_ReqLogin:
  assumes R: "req = ReqLogin e p" and inv: "db_inv d" and sess: "session_ok d s"
    and h: "handle cfg env s req d = (r, s', d', m)"
  shows "db_inv d' \<and> session_ok d' s' \<and> set (user_pairs d) \<subseteq> set (user_pairs d')"
proof -
  from h [unfolded R handle_simps] have "api_login e p d s = (r, s')" and "d' = d"
    by (auto simp: prod_eq_iff)
  from session_ok_login [OF sess this(1)] inv \<open>d' = d\<close> show ?thesis by simp
qed

lemma handle_inv_ReqLogout:
  assumes R: "req = ReqLogout" and inv: "db_inv d" and sess: "session_ok d s"
    and h: "handle cfg env s req d = (r, s', d', m)"
  shows "db_inv d' \<and> session_ok d' s' \<and> set (user_pairs d) \<subseteq> set (user_pairs d')"
proof -
  from h [unfolded R handle_simps] have "s' = empty_session" "d' = d" by simp_all
  with inv show ?thesis by (simp add: session_ok_def empty_session_def)
qed

lemma handle_inv_ReqPost:
  assumes R: "req = ReqPost c p" and inv: "db_inv d" and sess: "session_ok d s"
    and h: "handle cfg env s req d = (r, s', d', m)"
  shows "db_inv d' \<and> session_ok d' s' \<and> set (user_pairs d) \<subseteq> set (user_pairs d')"
proof -
  from h [unfolded R handle_simps] have post: "post_message env s c p d = (r, d')" and "s' = s"
    by (auto simp: prod_eq_iff)
  from post_message_inv [OF inv sess post] have "db_inv d'" "user_pairs d' = user_pairs d" by simp_all
  with sess \<open>s' = s\<close> show ?thesis by (simp add: session_ok_def)
qed

lemma handle_inv_ReqDelete:
  assumes R: "req = ReqDelete i" and inv: "db_inv d" and sess: "session_ok d s"
    and h: "handle cfg env s req d = (r, s', d', m)"
  shows "db_inv d' \<and> session_ok d' s' \<and> set (user_pairs d) \<subseteq> set (user_pairs d')"
proof -
  from h [unfolded R handle_simps] have del: "delete_message s i d = (r, d')" and "s' = s"
    by (auto simp: prod_eq_iff)
  from delete_message_inv [OF inv del] have "db_inv d'" "user_pairs d' = user_pairs d" by simp_all
  with sess \<open>s' = s\<close> show ?thesis by (simp add: session_ok_def)
qed

lemma handle_inv_ReqProfile:
  assumes R: "req = ReqProfile f" and inv: "db_inv d" and sess: "session_ok d s"
    and h: "handle cfg env s req d = (r, s', d', m)"
  shows "db_inv d' \<and> session_ok d' s' \<and> set (user_pairs d) \<subseteq> set (user_pairs d')"
proof -
  from h [unfolded R handle_simps] have up: "update_profile env s f d = (r, d')" and "s' = s"
    by (auto simp: prod_eq_iff)
  from update_profile_inv [OF inv up] have "db_inv d'" "user_pairs d' = user_pairs d" by simp_all
  with sess \<open>s' = s\<close> show ?thesis by (simp add: session_ok_def)


qed

lemma handle_inv:
  assumes inv: "db_inv d" and sess: "session_ok d s"
    and h: "handle cfg env s req d = (r, s', d', m)"
  shows "db_inv d' \<and> session_ok d' s' \<and> set (user_pairs d) \<subseteq> set (user_pairs d')"
proof (cases req)
  case ReqIndex
  from handle_inv_ReqIndex [OF this inv sess h] show ?thesis .
next
  case ReqGetMessages
  from handle_inv_ReqGetMessages [OF this inv sess h] show ?thesis .
next
  case (ReqSendCode e)
  from handle_inv_ReqSendCode [OF this inv sess h] show ?thesis .
next
  case (ReqRegister f)
  from handle_inv_ReqRegister [OF this inv sess h] show ?thesis .
next
  case (ReqLogin e p)
  from handle_inv_ReqLogin [OF this inv sess h] show ?thesis .
next
  case ReqLogout
  from handle_inv_ReqLogout [OF this inv sess h] show ?thesis .
next
  case (ReqPost c p)
  from handle_inv_ReqPost [OF this inv sess h] show ?thesis .
next
  case (ReqDelete i)
  from handle_inv_ReqDelete [OF this inv sess h] show ?thesis .
next
  case (ReqProfile f)
  from handle_inv_ReqProfile [OF this inv sess h] show ?thesis .
qed

lemma sys_step_inv: "sys_inv s \<Longrightarrow> sys_inv (snd (sys_step cfg ev s))"
proof -
  assume inv: "sys_inv s"
  obtain r s' d' m where h: "handle cfg (ev_env ev) (sys_sessions s (ev_client ev)) (ev_req ev) (sys_db s)
      = (r, s', d', m)"
    by (cases "handle cfg (ev_env ev) (sys_sessions s (ev_client ev)) (ev_req ev) (sys_db s)") auto
  from inv have "db_inv (sys_db s)" and "session_ok (sys_db s) (sys_sessions s (ev_client ev))"
    by (simp_all add: sys_inv_def)
  from handle_inv [OF this h] have
    d': "db_inv d'" and s': "session_ok d' s'" and pairs: "set (user_pairs (sys_db s)) \<subseteq> set (user_pairs d')"
    by simp_all
  have others: "session_ok d' (sys_sessions s c)" for c
    using inv pairs by (auto simp: sys_inv_def intro: session_ok_mono)
  from h d' s' others show ?thesis by (simp add: sys_step_def sys_inv_def)
qed

lemma reachable_sys_inv: "reachable cfg s \<Longrightarrow> sys_inv s"
proof (induction rule: reachable.induct)
  case init
  show ?case by (rule init_sys_inv)
next
  case (step s ev)
  from step.IH show ?case by (rule sys_step_inv)
qed

lemma reachable_inv:
  "reachable cfg s \<Longrightarrow> db_inv (sys_db s) \<and> (\<forall>c. session_ok (sys_db s) (sys_sessions s c))"
  using reachable_sys_inv by (simp add: sys_inv_def)

lemma ids_ok_distinct: "ids_ok d \<Longrightarrow> distinct (map u_id (app_users d))"
  by (simp add: ids_ok_def)

lemma handle_mail:
  "handle cfg env sess req d = (r, s', d', Some m) \<Longrightarrow>
     \<exists>e. req = ReqSendCode e \<and> api_send_code cfg env e d = (r, d', Some m)"
  by (cases req) (auto split: prod.splits)

lemma sys_step_cases:
  "sys_step cfg ev s = (r, s') \<Longrightarrow>
     \<exists>sess' sent. handle cfg (ev_env ev) (sys_sessions s (ev_client ev)) (ev_req ev) (sys_db s) =
        (r, sess', sys_db s', sent) \<and>
      sys_sessions s' = (sys_sessions s)(ev_client ev := sess') \<and>
      sys_outbox s' = sys_outbox s @ (case sent of None \<Rightarrow> [] | Some m \<Rightarrow> [m])"
  by (auto simp: sys_step_def split: prod.splits)

lemma handle_session_cases:
  assumes "handle cfg env sess req d = (r, sess', d', sent)"
  shows "sess' = sess \<or> (r = LoggedOut \<and> sess' = empty_session) \<or>
    (\<exists>u. r = LoginOk u \<and> u \<in> set (app_users d) \<and> \<not> u_banned u \<and>
       sess' = sess\<lparr>s_user_id := Some (u_id u), s_role := Some (u_role u), s_nickname := u_nickname u\<rparr>)"
proof (cases req)
  case (ReqLogin e p)
  with assms have l: "api_login e p d sess = (r, sess')" by (auto split: prod.splits)
  show ?thesis
  proof (cases "\<exists>u. r = LoginOk u")
    case True
    then obtain u where "r = LoginOk u" by blast
    note ok = api_login_LoginOk [OF l [unfolded \<open>r = LoginOk u\<close>]]
    then have "u \<in> set (users_with_email d (json_get e))" by (metis hd_in_set)
    then have "u \<in> set (app_users d)" by (simp add: users_with_email_def)
    with ok \<open>r = LoginOk u\<close> show ?thesis by blast
  next
    case False
    with api_login_session_unchanged [OF l] show ?thesis by blast
  qed
next
  case ReqLogout
  with assms show ?thesis by (simp add: api_logout_def)
qed (use assms in \<open>auto split: prod.splits\<close>)

lemma handle_messages_effect:
  assumes "handle cfg env sess req d = (r, sess', d', sent)"
  shows "messages d' = messages d \<or>
    (r = Posted \<and> (\<exists>m. messages d' = messages d @ [m] \<and> \<not> m_deleted m)) \<or>
    (r = Deleted \<and> (\<exists>i m. message_by_id d i = Some m \<and> can_delete sess m \<and>
       messages d' = map (\<lambda>x. if m_id x = i then redact x else x) (messages d)))"
proof (cases req)
  case (ReqPost c p)
  with assms have "post_message env sess c p d = (r, d')" by (auto split: prod.splits)
  from post_message_cases [OF this] show ?thesis
    by (auto simp: insert_message_def new_message_def)
next
  case (ReqDelete i)
  with assms have "delete_message sess i d = (r, d')" by (auto split: prod.splits)
  from delete_message_cases [OF this] show ?thesis
  proof (elim disjE conjE exE)
    fix m assume "r = Deleted" "message_by_id d i = Some m" "can_delete sess m"
      "d' = update_message i redact d"
    then show ?thesis by (auto simp: messages_update_message)
  qed simp
next
  case (ReqSendCode e)
  with assms have "api_send_code cfg env e d = (r, d', sent)" by (auto split: prod.splits)
  from api_send_code_frame [OF this] show ?thesis by simp
next
  case (ReqRegister f)
  with assms have "api_register env f d = (r, d')" by (auto split: prod.splits)
  from api_register_cases [OF this] show ?thesis
    by (auto simp: code_ops_fields insert_user_fields)
next
  case (ReqProfile f)
  with assms have "update_profile env sess f d = (r, d')" by (auto split: prod.splits)
  from update_profile_cases [OF this] show ?thesis by (auto simp: update_ops_fields)
qed (use assms in \<open>auto split: prod.splits\<close>)

end
