(* ===== verification/Quota.thy ===== *)
theory Quota
  imports System
begin

text \<open>
  The guest quota as a property of whole runs. \<open>admission\<close> (theory
  \<open>Admission\<close>) counts, before each guest post, the guest messages of the
  client's address created in the last 24 hours. When the clock of the steps
  never runs backwards (\<open>reachable_clocked\<close>), no window of 24 hours ever
  holds more than five guest messages of one address: \<open>quota_ok\<close> is an
  invariant of every run.
\<close>

section \<open>Guest messages in a window\<close>

definition guests_in_window :: "db \<Rightarrow> ip_addr \<Rightarrow> timestamp \<Rightarrow> nat" where
  "guests_in_window d ip a = length (filter (\<lambda>m. m_guest m \<and> m_ip m = ip \<and>
     a \<le> m_created m \<and> m_created m \<le> a + quota_window) (messages d))"

definition quota_ok :: "db \<Rightarrow> bool" where
  "quota_ok d \<longleftrightarrow> (\<forall>ip a. guests_in_window d ip a \<le> guest_limit)"

section \<open>Preservation by the store operations\<close>

lemma length_filter_mono_pred:
  "(\<And>x. x \<in> set xs \<Longrightarrow> P x \<Longrightarrow> Q x) \<Longrightarrow> length (filter P xs) \<le> length (filter Q xs)"
  by (induction xs) auto

lemma length_filter_map_inv:
  "(\<And>x. P (g x) = P x) \<Longrightarrow> length (filter P (map g xs)) = length (filter P xs)"
  by (induction xs) auto

lemma quota_ok_frame: "messages d' = messages d \<Longrightarrow> quota_ok d' = quota_ok d"
  by (simp add: quota_ok_def guests_in_window_def)

lemma quota_ok_insert:
  assumes q: "quota_ok d" and clock: "\<forall>m \<in> set (messages d). m_created m \<le> now"
    and adm: "p_guest p \<Longrightarrow> recent_count d (p_ip p) now < guest_limit"
  shows "quota_ok (insert_message now p d)"
  unfolding quota_ok_def
proof (intro allI)
  fix ip a
  let ?P = "\<lambda>m. m_guest m \<and> m_ip m = ip \<and> a \<le> m_created m \<and> m_created m \<le> a + quota_window"
  let ?new = "new_message (next_mid d) now p"
  have eq: "guests_in_window (insert_message now p d) ip a =
      length (filter ?P (messages d)) + (if ?P ?new then 1 else 0)"
    by (simp add: guests_in_window_def insert_message_def)
  show "guests_in_window (insert_message now p d) ip a \<le> guest_limit"
  proof (cases "?P ?new")
    case False
    with eq q show ?thesis by (simp add: quota_ok_def guests_in_window_def)
  next
    case True
    then have g: "p_guest p" and ip: "p_ip p = ip" and w: "a \<le> now" "now \<le> a + quota_window"
      by (simp_all add: new_message_def)
    have "length (filter ?P (messages d)) \<le> length (filter (in_window now ip) (messages d))"
    proof (rule length_filter_mono_pred)
      fix m assume "m \<in> set (messages d)" and "?P m"
      with w show "in_window now ip m" by (auto simp: in_window_def)
    qed
    also have "\<dots> < guest_limit" using adm [OF g] ip by (simp add: recent_count_def)
    finally show ?thesis using eq True by simp
  qed
qed

lemma quota_ok_redact:
  "quota_ok d \<Longrightarrow> quota_ok (update_message i redact d)"
  unfolding quota_ok_def guests_in_window_def messages_update_message
  by (subst length_filter_map_inv) (auto simp: redact_def)

section \<open>Preservation by the requests\<close>

text \<open>A request leaves the message table alone, inserts one admitted message, or redacts one.\<close>

lemma handle_messages_cases:
  assumes h: "handle cfg env s req d = (r, s', d', m)"
  shows "messages d' = messages d \<or>
    (\<exists>p. d' = insert_message (e_now env) p d \<and>
         (p_guest p \<longrightarrow> recent_count d (p_ip p) (e_now env) < guest_limit)) \<or>
    (\<exists>i. d' = update_message i redact d)"
proof (cases req)
  case (ReqSendCode e)
  from h [unfolded ReqSendCode handle_simps] have "api_send_code cfg env e d = (r, d', m)"
    by (simp add: prod_eq_iff)
  from api_send_code_frame [OF this] show ?thesis by simp
next
  case (ReqRegister f)
  from h [unfolded ReqRegister handle_simps] have "api_register env f d = (r, d')"
    by (simp add: prod_eq_iff)
  from api_register_cases [OF this] show ?thesis
    by (auto simp: code_ops_fields insert_user_fields)
next
  case (ReqPost c p)
  from h [unfolded ReqPost handle_simps] have "post_message env s c p d = (r, d')"
    by (auto simp: prod_eq_iff)
  from post_message_cases [OF this] show ?thesis
  proof (elim disjE conjE)
    let ?pl = "post_payload env s (the (json_get c)) (json_get p) (is_guest_session s)"
    assume adm: "admission s d (resolve_ip (e_xff env) (e_remote env)) (e_now env) = Inr (is_guest_session s)"
      and d': "d' = insert_message (e_now env) ?pl d"
    have "p_guest ?pl \<longrightarrow> recent_count d (p_ip ?pl) (e_now env) < guest_limit"
      using adm admission_guest_below by auto
    with d' show ?thesis by blast
  qed simp
next
  case (ReqDelete i)
  from h [unfolded ReqDelete handle_simps] have "delete_message s i d = (r, d')"
    by (auto simp: prod_eq_iff)
  from delete_message_cases [OF this] show ?thesis by auto
next
  case (ReqProfile f)
  from h [unfolded ReqProfile handle_simps] have "update_profile env s f d = (r, d')"
    by (auto simp: prod_eq_iff)
  from update_profile_cases [OF this] show ?thesis by (auto simp: update_ops_fields)
next
  case ReqIndex
  from h [unfolded ReqIndex handle_simps] show ?thesis by simp
next
  case ReqGetMessages
  from h [unfolded ReqGetMessages handle_simps] show ?thesis by simp
next
  case ReqLogout
  from h [unfolded ReqLogout handle_simps] show ?thesis by simp
next
  case (ReqLogin e p)
  from h [unfolded ReqLogin handle_simps] show ?thesis by simp
qed

lemma sys_step_quota:
  assumes q: "quota_ok (sys_db s)" and clock: "clock_ok s (ev_env ev)"
  shows "quota_ok (sys_db (snd (sys_step cfg ev s)))"
proof -
  obtain r s' d' m where h: "handle cfg (ev_env ev) (sys_sessions s (ev_client ev)) (ev_req ev) (sys_db s)
      = (r, s', d', m)"
    by (cases "handle cfg (ev_env ev) (sys_sessions s (ev_client ev)) (ev_req ev) (sys_db s)") auto
  then have d': "sys_db (snd (sys_step cfg ev s)) = d'" by (simp add: sys_step_def)
  from clock have c: "\<forall>m \<in> set (messages (sys_db s)). m_created m \<le> e_now (ev_env ev)"
    by (simp add: clock_ok_def)
  from handle_messages_cases [OF h] show ?thesis
  proof (elim disjE exE conjE)
    assume "messages d' = messages (sys_db s)"
    with q quota_ok_frame [of d' "sys_db s"] show ?thesis by (simp add: d')
  next
    fix p assume "d' = insert_message (e_now (ev_env ev)) p (sys_db s)"
      and "p_guest p \<longrightarrow> recent_count (sys_db s) (p_ip p) (e_now (ev_env ev)) < guest_limit"
    with quota_ok_insert [OF q c] show ?thesis by (simp add: d')
  next
    fix i assume "d' = update_message i redact (sys_db s)"
    with quota_ok_redact [OF q] show ?thesis by (simp add: d')
  qed
qed

lemma reachable_clocked_quota: "reachable_clocked cfg s \<Longrightarrow> quota_ok (sys_db s)"
proof (induction rule: reachable_clocked.induct)
  case init
  show ?case by (simp add: init_sys_def empty_db_def quota_ok_def guests_in_window_def)
next
  case (step s ev)
  from step.IH step.hyps(2) show ?case by (rule sys_step_quota)
qed

section \<open>Runs whose clock does not go back\<close>

text \<open>A run from the initial state whose request times are non-decreasing is clocked.\<close>

lemma handle_created_le:
  assumes h: "handle cfg env s req d = (r, s', d', m)"
    and old: "\<forall>x \<in> set (messages d). m_created x \<le> t" and now: "e_now env \<le> t"
  shows "\<forall>x \<in> set (messages d'). m_created x \<le> t"
  using handle_messages_cases [OF h]
proof (elim disjE exE conjE)
  fix p assume "d' = insert_message (e_now env) p d"
  with old now show ?thesis by (auto simp: insert_message_def new_message_def)
next
  fix i assume "d' = update_message i redact d"
  with old show ?thesis by (auto simp: messages_update_message redact_def)
qed (use old in simp)

lemma clock_ok_step:
  "clock_ok s (ev_env ev) \<Longrightarrow> e_now (ev_env ev) \<le> e_now env' \<Longrightarrow>
     clock_ok (snd (sys_step cfg ev s)) env'"
  unfolding clock_ok_def sys_step_def
  by (auto split: prod.splits dest!: handle_created_le [where t = "e_now env'"])

lemma run_clocked:
  "reachable_clocked cfg s \<Longrightarrow> clock_ok s (ev_env ev) \<Longrightarrow>
     sorted (map (\<lambda>e. e_now (ev_env e)) (ev # evs)) \<Longrightarrow>
     reachable_clocked cfg (snd (run cfg s (ev # evs)))"
proof (induction evs arbitrary: s ev)
  case Nil
  from reachable_clocked.step [OF Nil.prems(1,2)] show ?case
    unfolding run_Cons_snd by simp
next
  case (Cons ev' evs)
  have s1: "reachable_clocked cfg (snd (sys_step cfg ev s))"
    using Cons.prems(1,2) by (rule reachable_clocked.step)
  have c1: "clock_ok (snd (sys_step cfg ev s)) (ev_env ev')"
    using Cons.prems(2,3) by (auto intro: clock_ok_step)
  from Cons.prems(3) have "sorted (map (\<lambda>e. e_now (ev_env e)) (ev' # evs))" by simp
  from Cons.IH [OF s1 c1 this] show ?case by (simp only: run_Cons_snd)
qed

lemma run_init_clocked:
  "sorted (map (\<lambda>e. e_now (ev_env e)) evs) \<Longrightarrow> reachable_clocked cfg (snd (run cfg init_sys evs))"
proof (cases evs)
  case Nil
  then show ?thesis by (simp add: reachable_clocked.init)
next
  case (Cons ev evs')
  moreover have "clock_ok init_sys (ev_env ev)" by (simp add: clock_ok_def init_sys_def empty_db_def)
  ultimately show "sorted (map (\<lambda>e. e_now (ev_env e)) evs) \<Longrightarrow> ?thesis"
    using run_clocked [OF reachable_clocked.init] by blast
qed

end
