(* ===== verification/Spec2Isabelle.thy ===== *)
theory Spec2Isabelle
  imports Quota
begin

text \<open>
  \<^bold>\<open>A verified model of the message board of \<open>src/api/index.py\<close>.\<close>

  The program is one Flask module over a Supabase store with three tables
  (\<open>email_codes\<close>, \<open>app_users\<close>, \<open>messages\<close>). Nine routes read a JSON body
  and the session cookie, query and write the store, and answer a JSON
  response with an HTTP status. Helper functions choose an SMTP account and
  mail the verification code, turn an address into a location label and a
  user-agent into a device label, and build a QQ avatar URL. The development
  models every route and helper as a total HOL function; what the outside
  world contributes to one request (clock, headers, random draws, the SMTP,
  geo-IP and user-agent answers, whether a guarded store write raises) is the
  record \<open>req_env\<close>, an input of every handler.

  \<^bold>\<open>Theories, in import order.\<close>
  \<^item> \<open>Prelude\<close>: JSON fields (\<open>data.get\<close> as \<open>json_get\<close>, absent vs. null vs.
    value), Python truthiness of strings and ids, \<open>str()\<close> of a natural number
    (\<open>dec_str\<close>) and its inverse \<open>parse_dec\<close>, the rendering of a filter value
    (\<open>py_str\<close>: \<open>None\<close> becomes the text \<open>None\<close>), UTF-8 literals; shared list lemmas.
  \<^item> \<open>Store\<close>: the rows (\<open>app_user\<close>, \<open>message\<close>) and the store state \<open>db\<close>
    (a map for \<open>email_codes\<close>, lists in insertion order for the two tables,
    the identity counters), and the adapter operations the handlers issue:
    \<open>users_with_email\<close>, \<open>message_by_id\<close>, \<open>upsert_code\<close>, \<open>delete_code\<close>,
    \<open>insert_user\<close>, \<open>insert_message\<close>, \<open>update_user\<close>, \<open>update_message\<close>.
    Passwords are hashed by \<open>generate_password_hash\<close> to a salted value that
    \<open>check_password_hash\<close> accepts exactly for the same password.
  \<^item> \<open>Collaborators\<close>: \<open>get_random_smtp\<close>, \<open>send_email_code\<close>, \<open>get_ip_info\<close>,
    \<open>get_device_info\<close>, \<open>get_qq_avatar\<close> (lines 34-93), each a function of the
    \<open>req_env\<close> answers; the device label is shown equal to a simpler one and
    the avatar URL to give the QQ number back.
  \<^item> \<open>Api\<close>: the Flask session, the join columns of the listing, and the
    datatype \<open>api_result\<close> of every response with \<open>http_status\<close>.
  \<^item> \<open>Verification\<close>: \<open>api_send_code\<close> (lines 102-118) with \<open>gen_code\<close>; the
    code is six digits and stored before the mail is tried.
  \<^item> \<open>Account\<close>: \<open>api_register\<close>, \<open>api_login\<close>, \<open>api_logout\<close>,
    \<open>update_profile\<close> (lines 120-188 and 272-291): the code check
    \<open>code_rejected\<close>, the bootstrap role \<open>new_role\<close>, the ban check before the
    password check, the two profile actions.
  \<^item> \<open>Admission\<close>: the guest branch of \<open>post_message\<close> (lines 205-223):
    \<open>resolve_ip\<close>, \<open>is_guest_session\<close>, \<open>recent_count\<close> over the 24-hour
    window and the decision \<open>admission\<close>.
  \<^item> \<open>Messages\<close>: \<open>get_messages\<close> (newest first by a stable sort, first 50,
    joined with the author), \<open>post_message\<close> with its \<open>post_payload\<close>,
    \<open>delete_message\<close> with \<open>can_delete\<close> and the soft delete \<open>redact\<close>.
  \<^item> \<open>System\<close>: the routes as one \<open>request\<close> datatype and the dispatch
    \<open>handle\<close>; the system state \<open>sys\<close> (store, every client's session,
    delivered mail), \<open>sys_step\<close>, \<open>run\<close>, and the reachable states as the
    inductive \<open>reachable\<close>. The invariant \<open>sys_inv\<close> (sequential ids, one
    super_admin first, unique emails, redacted deleted rows, resolving
    authors, sessions naming accounts) holds in every reachable state, by rule
    induction with one preservation lemma per route.
  \<^item> \<open>Quota\<close>: \<open>quota_ok\<close>, at most five guest messages of an address in any
    24-hour window, is an invariant of the runs whose clock never runs behind
    a stored \<open>created_at\<close> (\<open>reachable_clocked\<close>); runs with non-decreasing
    request times are such runs.
  \<^item> This theory: the properties that span components, stated over runs and
    reachable states, over single steps of the whole system (which part of
    the state a request may change, and how), or over sequences of two
    handlers.

  \<^bold>\<open>Lemma groups.\<close> Each component theory ends with its properties: the
  functional result of each handler on every branch, its error answers, and
  the store it leaves. The properties of runs are proved from the component
  lemmas through the invariant of \<open>System\<close> and \<open>Quota\<close>.

  \<^bold>\<open>Bounds.\<close> There is no loop of unbounded length in the source, and every
  definition is a terminating HOL function: no fuel is needed. The constants
  of the source are kept: 5 guest messages, 86400 seconds, 50 listed rows,
  codes drawn from 100000-999999. Timestamps are integers (seconds).

  \<^bold>\<open>Not modelled.\<close> The page route renders a template and is the constant
  \<open>IndexPage\<close>. Loading the configuration is reduced to the decoded
  \<open>SMTP_ACCOUNTS\<close> value. The MIME encoding, the network protocols and the
  store's transport are outside the model; a store call outside a
  \<open>try\<close> block is taken to succeed, and the guarded inserts may fail
  (\<open>e_store_ok\<close>). A request body that is not a JSON object, and a missing
  \<open>User-Agent\<close> header, raise in the source before any write and are not
  separate inputs. Concurrency is modelled as the interleaving of whole
  requests, the store's serialisation; races inside one request are not
  (two first registrations reading a user count of 0 at once, for instance).
  The store's identity columns are a gapless counter, and a failed insert
  uses no id, which a PostgreSQL sequence does not promise. Rows with equal
  \<open>created_at\<close> are listed in table order, an order the store leaves open.
  Sessions are kept per client on the server side instead of in a signed
  cookie the client holds.
  The message id of the delete route is taken as a number; a non-numeric
  id, which the store rejects, is not an input of the model.
\<close>

section \<open>A sample run\<close>

definition demo_events :: "event list" where
  "demo_events =
     [\<lparr>ev_client = 0, ev_env = demo_env 10, ev_req = ReqSendCode (JVal ''a@x.io'')\<rparr>,
      \<lparr>ev_client = 0, ev_env = demo_env 20, ev_req = ReqRegister (demo_reg ''a@x.io'' ''223456'')\<rparr>,
      \<lparr>ev_client = 0, ev_env = demo_env 30, ev_req = ReqLogin (JVal ''a@x.io'') (JVal ''pw1'')\<rparr>,
      \<lparr>ev_client = 0, ev_env = demo_env 40, ev_req = ReqPost (JVal ''hello'') JAbsent\<rparr>,
      \<lparr>ev_client = 1, ev_env = demo_env 50, ev_req = ReqPost (JVal ''hi'') (JVal 1)\<rparr>]"

abbreviation demo_cfg :: smtp_config where
  "demo_cfg \<equiv> Some [\<lparr>sa_email = ''bot@x.io'', sa_password = ''k'', sa_smtp = ''smtp.x.io''\<rparr>]"

abbreviation demo_send :: event where
  "demo_send \<equiv> \<lparr>ev_client = 0, ev_env = demo_env 0, ev_req = ReqSendCode (JVal ''a@x.io'')\<rparr>"

abbreviation demo_member_sys :: sys where
  "demo_member_sys \<equiv> init_sys\<lparr>sys_db := empty_db\<lparr>app_users := [demo_user 1 ''a@x.io'' RoleUser]\<rparr>\<rparr>"

abbreviation demo_login :: event where
  "demo_login \<equiv> \<lparr>ev_client = 0, ev_env = demo_env 0, ev_req = ReqLogin (JVal ''a@x.io'') (JVal ''secret'')\<rparr>"

lemma demo_reachable: "reachable None (snd (run None init_sys demo_events))"
  by (rule run_reachable [OF reachable.init])

section \<open>Properties of runs\<close>

text \<open>
  C2: in every run whose requests carry non-decreasing times, no 24-hour window holds more than five guest messages from one address: the per-request check of the admission controller yields the rolling quota for the whole run.
\<close>

theorem guest_quota_window:
  "sorted (map (\<lambda>e. e_now (ev_env e)) evs) \<Longrightarrow>
     guests_in_window (sys_db (snd (run cfg init_sys evs))) ip a \<le> guest_limit"
  using reachable_clocked_quota [OF run_init_clocked] by (simp add: quota_ok_def)

theorem guest_quota_window_witness:
  "sorted (map (\<lambda>e. e_now (ev_env e)) demo_events) \<and>
   guests_in_window (sys_db (snd (run None init_sys demo_events))) ''10.0.0.7'' 0 \<le> guest_limit"
proof -
  have s: "sorted (map (\<lambda>e. e_now (ev_env e)) demo_events)" by (simp add: demo_events_def)
  from s guest_quota_window [OF s, of None "''10.0.0.7''" 0] show ?thesis by simp
qed

text \<open>
  C5: in every reachable state the first account (id 1) is the only super_admin and every later account has role user; no request gives any account the admin role.
\<close>

theorem single_super_admin:
  assumes "reachable cfg s"
  shows "case app_users (sys_db s) of [] \<Rightarrow> True
         | u # us \<Rightarrow> u_id u = 1 \<and> u_role u = RoleSuperAdmin \<and> (\<forall>v \<in> set us. u_role v = RoleUser)"
proof (cases "app_users (sys_db s)")
  case (Cons u us)
  from reachable_inv [OF assms] have "roles_ok (sys_db s)" and ids: "ids_ok (sys_db s)"
    by (simp_all add: db_inv_def)
  from ids Cons have "[1..<next_uid (sys_db s)] = u_id u # map u_id us" by (simp add: ids_ok_def)
  then have "u_id u = 1" by (simp add: upt_eq_Cons_conv)
  with Cons \<open>roles_ok (sys_db s)\<close> show ?thesis by (simp add: roles_ok_def list_all_iff)
qed simp

theorem single_super_admin_witness:
  "case app_users (sys_db (snd (run None init_sys demo_events))) of [] \<Rightarrow> True
     | u # us \<Rightarrow> u_id u = 1 \<and> u_role u = RoleSuperAdmin \<and> list_all (\<lambda>v. u_role v = RoleUser) us"
  using single_super_admin [OF demo_reachable]
  by (simp add: list_all_iff split: list.splits)

text \<open>
  C7: in every reachable state at most one account has a given email, so the \<open>res.data[0]\<close> of \<open>api_login\<close> is the only candidate.
\<close>

theorem email_unique:
  "reachable cfg s \<Longrightarrow> length (users_with_email (sys_db s) e) \<le> 1"
proof -
  assume "reachable cfg s"
  from reachable_inv [OF this] have "emails_ok (sys_db s)" by (simp add: db_inv_def)
  then show ?thesis
    unfolding users_with_email_def emails_ok_def by (rule length_filter_Some_distinct)
qed

theorem email_unique_witness:
  "length (users_with_email (sys_db (snd (run None init_sys demo_events))) (Some ''a@x.io'')) \<le> 1"
  using email_unique [OF demo_reachable] .

text \<open>
  C14: in every reachable state, every deleted message in the listing shows the replacement text and never its original content.
\<close>

theorem listing_redacted:
  assumes "reachable cfg s" and "get_messages (sys_db s) = MessageList rows"
  shows "\<forall>(m, a) \<in> set rows. m_deleted m \<longrightarrow> m_content m = redacted_text"
proof -
  from reachable_inv [OF assms(1)] have "redaction_ok (sys_db s)" by (simp add: db_inv_def)
  have "fst ` set rows \<subseteq> set (messages (sys_db s))"
    using assms(2) by (auto simp: get_messages_def listed_def with_author_def dest!: in_set_takeD)
  with \<open>redaction_ok (sys_db s)\<close> show ?thesis
    by (fastforce simp: redaction_ok_def list_all_iff)
qed

theorem listing_redacted_witness:
  "filter (\<lambda>(m, a). m_deleted m \<and> m_content m \<noteq> redacted_text)
     (map (with_author (sys_db (snd (run None init_sys demo_events))))
        (listed (sys_db (snd (run None init_sys demo_events))))) = []"
proof -
  have "get_messages (sys_db (snd (run None init_sys demo_events))) =
      MessageList (map (with_author (sys_db (snd (run None init_sys demo_events))))
        (listed (sys_db (snd (run None init_sys demo_events)))))"
    by (simp add: get_messages_def)
  from listing_redacted [OF demo_reachable this] show ?thesis
    by (auto simp: filter_empty_conv)
qed

text \<open>
  C27: in every reachable state a message is a guest's exactly when it has no author id, and every author id resolves to an account in the listing's join.
\<close>

theorem authors_resolve:
  "reachable cfg s \<Longrightarrow>
     list_all (\<lambda>m. (m_guest m \<longleftrightarrow> m_user_id m = None) \<and>
       (case m_user_id m of None \<Rightarrow> True | Some i \<Rightarrow> user_by_id (sys_db s) i \<noteq> None))
       (messages (sys_db s))"
  using reachable_inv [of cfg s]
  by (fastforce simp: db_inv_def authors_ok_def list_all_iff user_pairs_def user_by_id_def
      find_None_iff split: option.splits)

theorem authors_resolve_witness:
  "list_all (\<lambda>m. (m_guest m \<longleftrightarrow> m_user_id m = None) \<and>
     (case m_user_id m of None \<Rightarrow> True
      | Some i \<Rightarrow> user_by_id (sys_db (snd (run None init_sys demo_events))) i \<noteq> None))
     (messages (sys_db (snd (run None init_sys demo_events))))"
  using authors_resolve [OF demo_reachable] .

text \<open>
  C29: in every reachable state every client's session is empty or carries a positive user id that names an account, with that account's role.
\<close>

theorem sessions_resolve:
  assumes "reachable cfg s"
  shows "case s_user_id (sys_sessions s c) of None \<Rightarrow> s_role (sys_sessions s c) = None
         | Some i \<Rightarrow> 0 < i \<and> (\<exists>u. user_by_id (sys_db s) i = Some u \<and>
                                   s_role (sys_sessions s c) = Some (u_role u))"
proof -
  from reachable_inv [OF assms] have inv: "db_inv (sys_db s)"
    and so: "session_ok (sys_db s) (sys_sessions s c)" by auto
  from inv have ids: "ids_ok (sys_db s)" by (simp add: db_inv_def)
  show ?thesis
  proof (cases "s_user_id (sys_sessions s c)")
    case None
    with so show ?thesis by (simp add: session_ok_def)
  next
    case (Some i)
    with so obtain r where r: "s_role (sys_sessions s c) = Some r" "(i, r) \<in> set (user_pairs (sys_db s))"
      by (auto simp: session_ok_def)
    then obtain u where u: "u \<in> set (app_users (sys_db s))" "u_id u = i" "u_role u = r"
      by (auto simp: user_pairs_def)
    have "user_by_id (sys_db s) i = Some u"
      using find_distinct_key [OF ids_ok_distinct [OF ids] u(1)] u(2) by (simp add: user_by_id_def)
    with Some r u ids_ok_user_pos [OF ids r(2)] show ?thesis by simp
  qed
qed

theorem sessions_resolve_witness:
  "case s_user_id (sys_sessions (snd (run None init_sys demo_events)) 0) of
     None \<Rightarrow> s_role (sys_sessions (snd (run None init_sys demo_events)) 0) = None
   | Some i \<Rightarrow> 0 < i \<and> (\<exists>u. user_by_id (sys_db (snd (run None init_sys demo_events))) i = Some u \<and>
       s_role (sys_sessions (snd (run None init_sys demo_events)) 0) = Some (u_role u))"
  using sessions_resolve [OF demo_reachable] .

text \<open>
  C17: a step delivers at most one mail, only on a successful code request, and the delivered mail carries the code then stored for its recipient.
\<close>

theorem outbox_carries_stored_code:
  assumes "sys_step cfg ev s = (r, s')"
  shows "sys_outbox s' = sys_outbox s \<or>
    (\<exists>m code. r = CodeSent \<and> sys_outbox s' = sys_outbox s @ [m] \<and>
       email_codes (sys_db s') (mail_to m) = Some code \<and> mail_body m = mail_text code)"
proof -
  from sys_step_cases [OF assms] obtain sess' sent where
    h: "handle cfg (ev_env ev) (sys_sessions s (ev_client ev)) (ev_req ev) (sys_db s) = (r, sess', sys_db s', sent)"
    and o: "sys_outbox s' = sys_outbox s @ (case sent of None \<Rightarrow> [] | Some m \<Rightarrow> [m])"
    by blast
  show ?thesis
  proof (cases sent)
    case None
    with o show ?thesis by simp
  next
    case (Some m)
    from handle_mail [OF h [unfolded Some]] obtain e where
      "api_send_code cfg (ev_env ev) e (sys_db s) = (r, sys_db s', Some m)" by blast
    from api_send_code_mail [OF this] o Some show ?thesis by auto
  qed
qed

theorem outbox_carries_stored_code_witness:
  "sys_outbox (snd (sys_step demo_cfg demo_send init_sys)) =
     sys_outbox init_sys \<or>
   (\<exists>m code. fst (sys_step demo_cfg demo_send init_sys) = CodeSent \<and>
      sys_outbox (snd (sys_step demo_cfg demo_send init_sys)) =
        sys_outbox init_sys @ [m] \<and>
      email_codes (sys_db (snd (sys_step demo_cfg demo_send init_sys))) (mail_to m)
        = Some code \<and> mail_body m = mail_text code)"
  using outbox_carries_stored_code [of demo_cfg demo_send init_sys,
      OF prod.collapse [symmetric]] .

text \<open>
  C28: after a logout, the client's next accepted post is stored as a guest message with no author id, keyed by the requester's address.
\<close>

theorem logout_then_post_guest:
  assumes "sys_step cfg \<lparr>ev_client = c, ev_env = env, ev_req = ReqLogout\<rparr> s = (r, s')"
    and "sys_step cfg \<lparr>ev_client = c, ev_env = env', ev_req = ReqPost cf pf\<rparr> s' = (Posted, s'')"
  shows "r = LoggedOut \<and>
    (\<exists>m. messages (sys_db s'') = messages (sys_db s) @ [m] \<and> m_guest m \<and> m_user_id m = None \<and>
         m_ip m = resolve_ip (e_xff env') (e_remote env'))"
proof -
  from assms(1) have r: "r = LoggedOut" and d: "sys_db s' = sys_db s"
    and c: "sys_sessions s' c = empty_session"
    by (auto simp: sys_step_def api_logout_def)
  from assms(2) c have "post_message env' empty_session cf pf (sys_db s') = (Posted, sys_db s'')"
    by (auto simp: sys_step_def split: prod.splits)
  from post_message_cases [OF this] have
    "sys_db s'' = insert_message (e_now env')
       (post_payload env' empty_session (the (json_get cf)) (json_get pf) True) (sys_db s')"
    by (auto simp: is_guest_session_def empty_session_def)
  with r d show ?thesis
    by (simp add: insert_message_def new_message_def empty_session_def)
qed

theorem logout_then_post_guest_witness:
  "fst (sys_step None \<lparr>ev_client = 0, ev_env = demo_env 0, ev_req = ReqLogout\<rparr>
      (init_sys\<lparr>sys_sessions := (\<lambda>_. demo_member 1 RoleUser)\<rparr>)) = LoggedOut \<and>
   m_guest (last (messages (sys_db (snd (sys_step None \<lparr>ev_client = 0, ev_env = demo_env 5, ev_req = ReqPost (JVal ''hi'') JAbsent\<rparr>
      (snd (sys_step None \<lparr>ev_client = 0, ev_env = demo_env 0, ev_req = ReqLogout\<rparr>
        (init_sys\<lparr>sys_sessions := (\<lambda>_. demo_member 1 RoleUser)\<rparr>))))))))"
proof -
  let ?s = "init_sys\<lparr>sys_sessions := (\<lambda>_. demo_member 1 RoleUser)\<rparr>"
  let ?s' = "snd (sys_step None \<lparr>ev_client = 0, ev_env = demo_env 0, ev_req = ReqLogout\<rparr> ?s)"
  let ?s'' = "snd (sys_step None \<lparr>ev_client = 0, ev_env = demo_env 5, ev_req = ReqPost (JVal ''hi'') JAbsent\<rparr> ?s')"
  have h1: "sys_step None \<lparr>ev_client = 0, ev_env = demo_env 0, ev_req = ReqLogout\<rparr> ?s =
      (fst (sys_step None \<lparr>ev_client = 0, ev_env = demo_env 0, ev_req = ReqLogout\<rparr> ?s), ?s')"
    by simp
  have p: "fst (sys_step None \<lparr>ev_client = 0, ev_env = demo_env 5, ev_req = ReqPost (JVal ''hi'') JAbsent\<rparr> ?s') = Posted"
    by (simp add: sys_step_def api_logout_def init_sys_def empty_db_def post_message_def admission_def
        is_guest_session_def empty_session_def recent_count_def guest_limit_def)
  then have h2: "sys_step None \<lparr>ev_client = 0, ev_env = demo_env 5, ev_req = ReqPost (JVal ''hi'') JAbsent\<rparr> ?s' =
      (Posted, ?s'')" by (metis prod.collapse)
  from logout_then_post_guest [OF h1 h2] show ?thesis by auto
qed

text \<open>
  C33: a request changes no session but that of the client that sent it, and that one only by a logout, which empties it, or by a successful login, which stores the id, role and nickname of an unbanned account of the store; every other request leaves it as it was.
\<close>

theorem session_transitions:
  assumes "sys_step cfg ev s = (r, s')"
  shows "sys_sessions s' = (sys_sessions s)(ev_client ev := sys_sessions s' (ev_client ev)) \<and>
    (sys_sessions s' (ev_client ev) = sys_sessions s (ev_client ev) \<or>
     (r = LoggedOut \<and> sys_sessions s' (ev_client ev) = empty_session) \<or>
     (\<exists>u. r = LoginOk u \<and> u \<in> set (app_users (sys_db s)) \<and> \<not> u_banned u \<and>
        sys_sessions s' (ev_client ev) = (sys_sessions s (ev_client ev))
          \<lparr>s_user_id := Some (u_id u), s_role := Some (u_role u), s_nickname := u_nickname u\<rparr>))"
proof -
  from sys_step_cases [OF assms] obtain sess' sent where
    h: "handle cfg (ev_env ev) (sys_sessions s (ev_client ev)) (ev_req ev) (sys_db s) = (r, sess', sys_db s', sent)"
    and ss: "sys_sessions s' = (sys_sessions s)(ev_client ev := sess')" by blast
  from handle_session_cases [OF h] ss show ?thesis by simp
qed

theorem session_transitions_witness:
  "sys_sessions (snd (sys_step None demo_login demo_member_sys)) =
     (sys_sessions demo_member_sys)(0 := sys_sessions (snd (sys_step None demo_login demo_member_sys)) 0) \<and>
   fst (sys_step None demo_login demo_member_sys) = LoginOk (demo_user 1 ''a@x.io'' RoleUser)"
proof -
  have "fst (sys_step None demo_login demo_member_sys) = LoginOk (demo_user 1 ''a@x.io'' RoleUser)"
    by (simp add: sys_step_def api_login_def users_with_email_def init_sys_def empty_db_def)
  with session_transitions [of None demo_login demo_member_sys, OF prod.collapse [symmetric]]
  show ?thesis by simp
qed

text \<open>
  C15: the message table changes only by appending one non-deleted row on a successful post, or by redacting the rows of one id on a successful delete whose requester may delete that message; every other request and every refusal leaves it as it was.
\<close>

theorem messages_append_only:
  assumes "sys_step cfg ev s = (r, s')"
  shows "messages (sys_db s') = messages (sys_db s) \<or>
    (r = Posted \<and> (\<exists>m. messages (sys_db s') = messages (sys_db s) @ [m] \<and> \<not> m_deleted m)) \<or>
    (r = Deleted \<and> (\<exists>i m. message_by_id (sys_db s) i = Some m \<and> can_delete (sys_sessions s (ev_client ev)) m \<and>
       messages (sys_db s') = map (\<lambda>x. if m_id x = i then redact x else x) (messages (sys_db s))))"
proof -
  from sys_step_cases [OF assms] obtain sess' sent where
    h: "handle cfg (ev_env ev) (sys_sessions s (ev_client ev)) (ev_req ev) (sys_db s) = (r, sess', sys_db s', sent)"
    by blast
  from handle_messages_effect [OF h] show ?thesis .
qed

theorem messages_append_only_witness:
  "messages (sys_db (snd (sys_step None demo_login demo_member_sys))) = messages (sys_db demo_member_sys) \<or>
   (fst (sys_step None demo_login demo_member_sys) = Posted \<and>
     (\<exists>m. messages (sys_db (snd (sys_step None demo_login demo_member_sys))) =
        messages (sys_db demo_member_sys) @ [m] \<and> \<not> m_deleted m)) \<or>
   (fst (sys_step None demo_login demo_member_sys) = Deleted \<and>
     (\<exists>i m. message_by_id (sys_db demo_member_sys) i = Some m \<and>
        can_delete (sys_sessions demo_member_sys 0) m \<and>
        messages (sys_db (snd (sys_step None demo_login demo_member_sys))) =
          map (\<lambda>x. if m_id x = i then redact x else x) (messages (sys_db demo_member_sys))))"
  using messages_append_only [of None demo_login demo_member_sys, OF prod.collapse [symmetric]] by simp

section \<open>Properties of sequences of handlers\<close>

text \<open>
  C18: after a new code is issued for an email, registering with any other code (an earlier one included) is refused with the bad-code error and changes nothing.
\<close>

theorem reissued_code_supersedes:
  assumes "e \<noteq> []" and "api_send_code cfg env (JVal e) d = (r, d', sent)"
    and "c \<noteq> gen_code (e_rand env)"
  shows "api_register env' (f\<lparr>rf_email := JVal e, rf_code := JVal c\<rparr>) d' = (ErrBadCode, d')"
proof -
  from assms(1) api_send_code_store [OF _ assms(2)] have "d' = upsert_code e (gen_code (e_rand env)) d"
    by simp
  with assms(3) show ?thesis
    by (simp add: api_register_def code_rejected_def upsert_code_def Let_def)
qed

theorem reissued_code_supersedes_witness:
  "api_register (demo_env 20) (demo_reg ''a@x.io'' ''111111'')
     (fst (snd (api_send_code None (demo_env 10) (JVal ''a@x.io'') (upsert_code ''a@x.io'' ''111111'' empty_db))))
   = (ErrBadCode, fst (snd (api_send_code None (demo_env 10) (JVal ''a@x.io'') (upsert_code ''a@x.io'' ''111111'' empty_db))))"
proof -
  have g: "gen_code 123456 = ''223456''" by (simp add: gen_code_def dec_str_eval)
  obtain r d' sent where h: "api_send_code None (demo_env 10) (JVal ''a@x.io'') (upsert_code ''a@x.io'' ''111111'' empty_db) = (r, d', sent)"
    by (cases "api_send_code None (demo_env 10) (JVal ''a@x.io'') (upsert_code ''a@x.io'' ''111111'' empty_db)")
  from reissued_code_supersedes [of "''a@x.io''", OF _ h, of "''111111''" "demo_env 20" "demo_reg ''a@x.io'' ''111111''"] g h
  show ?thesis by simp
qed

text \<open>
  C20: the stored code is accepted at any later time: registering with the issued code succeeds however long after the issue, since the code's age is never read.
\<close>

theorem stale_code_accepted:
  assumes "e \<noteq> []" and "api_send_code cfg env (JVal e) d = (r, d', sent)"
    and "users_with_email d (Some e) = []" and "e_store_ok env'"
  shows "fst (api_register env' \<lparr>rf_email = JVal e, rf_code = JVal (gen_code (e_rand env)),
            rf_password = JVal pw, rf_qq = q, rf_nickname = n\<rparr> d') = Registered"
proof -
  from assms(1) api_send_code_store [OF _ assms(2)] have d': "d' = upsert_code e (gen_code (e_rand env)) d"
    by simp
  from assms(3) have "users_with_email d' (Some e) = []"
    by (simp add: d' users_with_email_def upsert_code_def)
  with d' assms(4) show ?thesis
    by (simp add: api_register_def code_rejected_def upsert_code_def Let_def)
qed

theorem stale_code_accepted_witness:
  "fst (api_register (demo_env 1000000) (demo_reg ''a@x.io'' ''223456'')
     (fst (snd (api_send_code None (demo_env 10) (JVal ''a@x.io'') empty_db)))) = Registered"
proof -
  have g: "gen_code 123456 = ''223456''" by (simp add: gen_code_def dec_str_eval)
  obtain r d' sent where h: "api_send_code None (demo_env 10) (JVal ''a@x.io'') empty_db = (r, d', sent)"
    by (cases "api_send_code None (demo_env 10) (JVal ''a@x.io'') empty_db")
  from stale_code_accepted [of "''a@x.io''", OF _ h, of "demo_env 1000000" "''pw1''" "JVal ''10001''" JAbsent] g h
  show ?thesis by (simp add: users_with_email_def empty_db_def)
qed

text \<open>
  C24: a post accepted at a time later than every stored message heads the next listing, with the posted content, the given parent, the session's author id, the next message id and not deleted.
\<close>

theorem post_then_list:
  assumes "post_message env sess (JVal c) p d = (Posted, d')"
    and "\<forall>m \<in> set (messages d). m_created m < e_now env"
  shows "\<exists>m rows. get_messages d' = MessageList (with_author d' m # rows) \<and>
    m_id m = next_mid d \<and> m_content m = c \<and> m_parent m = json_get p \<and>
    m_user_id m = s_user_id sess \<and> \<not> m_deleted m \<and> m_created m = e_now env"
proof -
  from post_message_cases [OF assms(1)] obtain pl where
    d': "d' = insert_message (e_now env) pl d" and pl: "pl = post_payload env sess c (json_get p) (is_guest_session sess)"
    by auto
  have "listed d' = new_message (next_mid d) (e_now env) pl #
          take (list_limit - 1) (newest_first (messages d))"
    unfolding d' using assms(2) by (rule listed_insert_newest)
  then show ?thesis
    by (intro exI [of _ "new_message (next_mid d) (e_now env) pl"]
        exI [of _ "map (with_author d') (take (list_limit - 1) (newest_first (messages d)))"])
      (simp add: get_messages_def pl new_message_def)
qed

theorem post_then_list_witness:
  "fst (post_message (demo_env 5) empty_session (JVal ''hi'') (JVal 1) empty_db) = Posted \<and>
   (\<exists>m rows. get_messages (snd (post_message (demo_env 5) empty_session (JVal ''hi'') (JVal 1) empty_db))
      = MessageList (with_author (snd (post_message (demo_env 5) empty_session (JVal ''hi'') (JVal 1) empty_db)) m # rows) \<and>
    m_content m = ''hi'' \<and> m_parent m = Some 1)"
proof -
  let ?d' = "snd (post_message (demo_env 5) empty_session (JVal ''hi'') (JVal 1) empty_db)"
  have f: "fst (post_message (demo_env 5) empty_session (JVal ''hi'') (JVal 1) empty_db) = Posted"
    by (simp add: post_message_def admission_def is_guest_session_def empty_session_def
        recent_count_def empty_db_def guest_limit_def)
  then have h: "post_message (demo_env 5) empty_session (JVal ''hi'') (JVal 1) empty_db = (Posted, ?d')"
    by (metis prod.collapse)
  have "\<forall>m \<in> set (messages empty_db). m_created m < e_now (demo_env 5)" by (simp add: empty_db_def)
  from post_then_list [OF h this] obtain m rows where
    "get_messages ?d' = MessageList (with_author ?d' m # rows)" "m_content m = ''hi''" "m_parent m = Some 1"
    by auto
  with f show ?thesis by blast
qed

text \<open>
  C30: after a password change, logging in to that account with the new password succeeds and returns the updated row, and any other password is refused.
\<close>

theorem change_password_roundtrip:
  assumes upd: "update_profile env sess \<lparr>pf_action = JVal ''change_pwd'', pf_qq = q, pf_password = JVal pw\<rparr> d = (r, d')"
    and sid: "s_user_id sess = Some (u_id u)" "0 < u_id u"
    and u: "users_with_email d (Some e) = [u]" and nb: "\<not> u_banned u"
  shows "r = PwChanged \<and>
    api_login (JVal e) (JVal pw) d' sess' =
      (LoginOk (u\<lparr>u_pw := generate_password_hash (e_salt env) pw\<rparr>),
       sess'\<lparr>s_user_id := Some (u_id u), s_role := Some (u_role u), s_nickname := u_nickname u\<rparr>) \<and>
    (pw' \<noteq> pw \<longrightarrow> fst (api_login (JVal e) (JVal pw') d' sess') = ErrBadPassword)"
proof -
  from upd sid have r: "r = PwChanged"
    and d': "d' = update_user (u_id u) (\<lambda>x. x\<lparr>u_pw := generate_password_hash (e_salt env) pw\<rparr>) d"
    by (auto simp: update_profile_def Let_def)
  have "users_with_email d' (Some e) = [u\<lparr>u_pw := generate_password_hash (e_salt env) pw\<rparr>]"
    unfolding d' by (simp add: users_with_email_update_user u)
  with r nb show ?thesis by (simp add: api_login_def generate_password_hash_def)
qed

theorem change_password_roundtrip_witness:
  "fst (api_login (JVal ''a@x.io'') (JVal ''new'')
     (snd (update_profile (demo_env 0) (demo_member 1 RoleUser)
        \<lparr>pf_action = JVal ''change_pwd'', pf_qq = JAbsent, pf_password = JVal ''new''\<rparr>
        (empty_db\<lparr>app_users := [demo_user 1 ''a@x.io'' RoleUser]\<rparr>))) empty_session)
   = LoginOk ((demo_user 1 ''a@x.io'' RoleUser)\<lparr>u_pw := PwHash 7 ''new''\<rparr>)"
proof -
  obtain r d' where h: "update_profile (demo_env 0) (demo_member 1 RoleUser)
        \<lparr>pf_action = JVal ''change_pwd'', pf_qq = JAbsent, pf_password = JVal ''new''\<rparr>
        (empty_db\<lparr>app_users := [demo_user 1 ''a@x.io'' RoleUser]\<rparr>) = (r, d')"
    by (cases "update_profile (demo_env 0) (demo_member 1 RoleUser)
        \<lparr>pf_action = JVal ''change_pwd'', pf_qq = JAbsent, pf_password = JVal ''new''\<rparr>
        (empty_db\<lparr>app_users := [demo_user 1 ''a@x.io'' RoleUser]\<rparr>)")
  have u: "users_with_email (empty_db\<lparr>app_users := [demo_user 1 ''a@x.io'' RoleUser]\<rparr>) (Some ''a@x.io'')
      = [demo_user 1 ''a@x.io'' RoleUser]" by (simp add: users_with_email_def)
  from change_password_roundtrip [OF h, of "demo_user 1 ''a@x.io'' RoleUser", OF _ _ u, of empty_session]
    h show ?thesis by (simp add: generate_password_hash_def)
qed

text \<open>
  C10: after a successful registration, logging in with the registered email and password succeeds, for the new account with the next id and the bootstrap role.
\<close>

theorem register_then_login:
  assumes reg: "api_register env f d = (Registered, d')"
    and e: "json_get (rf_email f) = Some e" and pw: "json_get (rf_password f) = Some pw"
  shows "\<exists>u. api_login (JVal e) (JVal pw) d' sess =
      (LoginOk u, sess\<lparr>s_user_id := Some (next_uid d), s_role := Some (new_role d), s_nickname := u_nickname u\<rparr>) \<and>
    u_id u = next_uid d \<and> u_role u = new_role d \<and> u_email u = Some e"
proof -
  from api_register_cases [OF reg] obtain row where
    none: "users_with_email d (Some e) = []" and
    d': "d' = delete_code e (insert_user row d)" and
    row: "nu_email row = Some e" "nu_pw row = generate_password_hash (e_salt env) pw" "nu_role row = new_role d"
    using e pw by fastforce
  let ?u = "\<lparr>u_id = next_uid d, u_email = nu_email row, u_pw = nu_pw row, u_qq = nu_qq row,
       u_nickname = nu_nickname row, u_avatar = nu_avatar row, u_role = nu_role row, u_banned = False\<rparr>"
  have "users_with_email d' (Some e) = [?u]"
    using none row(1) by (simp add: d' users_with_email_def insert_user_def delete_code_def)
  with row show ?thesis
    by (simp add: api_login_def generate_password_hash_def)
qed

theorem register_then_login_witness:
  "\<exists>u. fst (api_login (JVal ''a@x.io'') (JVal ''pw1'')
     (snd (api_register (demo_env 0) (demo_reg ''a@x.io'' ''223456'') (upsert_code ''a@x.io'' ''223456'' empty_db)))
     empty_session) = LoginOk u \<and> u_role u = RoleSuperAdmin"
proof -
  let ?d = "upsert_code ''a@x.io'' ''223456'' empty_db"
  have f: "fst (api_register (demo_env 0) (demo_reg ''a@x.io'' ''223456'') ?d) = Registered"
    by (simp add: register_simps upsert_code_def empty_db_def)
  have r: "new_role ?d = RoleSuperAdmin" by (simp add: new_role_def user_count_def upsert_code_def empty_db_def)
  from f have "api_register (demo_env 0) (demo_reg ''a@x.io'' ''223456'') ?d =
      (Registered, snd (api_register (demo_env 0) (demo_reg ''a@x.io'' ''223456'') ?d))"
    by (metis prod.collapse)
  from register_then_login [OF this, of "''a@x.io''" "''pw1''" empty_session] r show ?thesis by auto
qed

text \<open>
  C19: a verification code is consumed by the registration it admits: a second registration for the same email is refused with the bad-code answer and changes nothing.
\<close>

theorem code_single_use:
  assumes "api_register env f d = (Registered, d')" and "rf_email f' = rf_email f"
  shows "api_register env' f' d' = (ErrBadCode, d')"
proof -
  from api_register_cases [OF assms(1)] obtain row where
    "d' = delete_code (py_str (json_get (rf_email f))) (insert_user row d)" by auto
  then have "email_codes d' (py_str (json_get (rf_email f))) = None"
    by (simp add: delete_code_def insert_user_def)
  with assms(2) show ?thesis by (simp add: api_register_def code_rejected_def Let_def)
qed

theorem code_single_use_witness:
  "api_register (demo_env 1) (demo_reg ''a@x.io'' ''223456'')
     (snd (api_register (demo_env 0) (demo_reg ''a@x.io'' ''223456'') (upsert_code ''a@x.io'' ''223456'' empty_db)))
   = (ErrBadCode, snd (api_register (demo_env 0) (demo_reg ''a@x.io'' ''223456'') (upsert_code ''a@x.io'' ''223456'' empty_db)))"
proof -
  let ?d = "upsert_code ''a@x.io'' ''223456'' empty_db"
  have f: "fst (api_register (demo_env 0) (demo_reg ''a@x.io'' ''223456'') ?d) = Registered"
    by (simp add: register_simps upsert_code_def empty_db_def)
  then have "api_register (demo_env 0) (demo_reg ''a@x.io'' ''223456'') ?d =
      (Registered, snd (api_register (demo_env 0) (demo_reg ''a@x.io'' ''223456'') ?d))"
    by (metis prod.collapse)
  from code_single_use [OF this, of "demo_reg ''a@x.io'' ''223456''" "demo_env 1"] show ?thesis by simp
qed

end
